theory Spec2Isabelle
  imports Complex_Main "HOL-Library.Sublist"
begin

section \<open>JavaScript values used by the front end\<close>

text \<open>
  A JavaScript number is a finite value, one of the two infinities, or NaN. The front end
  only compares numbers (\<open>Math.max\<close>, \<open>Math.min\<close>, truthiness), so a finite double is
  represented by the real number it denotes; the sign of zero is not observable in what follows.
\<close>

datatype jsnum = Finite real | NaN | PosInfinity | NegInfinity

fun Math_min :: "jsnum \<Rightarrow> jsnum \<Rightarrow> jsnum" where
  "Math_min NaN b = NaN"
| "Math_min a NaN = NaN"
| "Math_min NegInfinity b = NegInfinity"
| "Math_min a NegInfinity = NegInfinity"
| "Math_min PosInfinity b = b"
| "Math_min a PosInfinity = a"
| "Math_min (Finite x) (Finite y) = Finite (min x y)"

fun Math_max :: "jsnum \<Rightarrow> jsnum \<Rightarrow> jsnum" where
  "Math_max NaN b = NaN"
| "Math_max a NaN = NaN"
| "Math_max PosInfinity b = PosInfinity"
| "Math_max a PosInfinity = PosInfinity"
| "Math_max NegInfinity b = b"
| "Math_max a NegInfinity = a"
| "Math_max (Finite x) (Finite y) = Finite (max x y)"

text \<open>A number is falsy when it is zero or NaN; \<open>a || b\<close> is \<open>a\<close> when \<open>a\<close> is truthy.\<close>

definition num_truthy :: "jsnum \<Rightarrow> bool" where
  "num_truthy n = (n \<noteq> NaN \<and> n \<noteq> Finite 0)"

definition num_or :: "jsnum \<Rightarrow> jsnum \<Rightarrow> jsnum" where
  "num_or a b = (if num_truthy a then a else b)"

text \<open>
  Strings are modelled as \<open>string\<close>. An optional string property (\<open>error?: string\<close>) is a
  \<open>string option\<close>; it is falsy when it is missing or empty.
\<close>

definition str_or :: "string option \<Rightarrow> string \<Rightarrow> string" where
  "str_or v d = (case v of None \<Rightarrow> d | Some s \<Rightarrow> if s = [] then d else s)"

text \<open>
  \<open>String.prototype.trim\<close> removes white space and line terminators from both ends. The
  code units below 256 that count are TAB, LF, VT, FF, CR, SPACE and NBSP.
\<close>

definition is_ws :: "char \<Rightarrow> bool" where
  "is_ws c = (of_char c \<in> {9, 10, 11, 12, 13, 32, 160 :: nat})"

definition trim :: "string \<Rightarrow> string" where
  "trim s = rev (dropWhile is_ws (rev (dropWhile is_ws s)))"

text \<open>
  The body of an upload response is read as an untyped value (\<open>res.json()\<close> has type
  \<open>any\<close>) and inspected with \<open>typeof\<close> and \<open>Array.isArray\<close>, so it is a dynamic value.
\<close>

datatype jsval =
    JUndefined
  | JNull
  | JBoolean bool
  | JNumber jsnum
  | JString string
  | JArray "jsval list"
  | JObject "(string \<times> jsval) list"

fun truthy :: "jsval \<Rightarrow> bool" where
  "truthy JUndefined = False"
| "truthy JNull = False"
| "truthy (JBoolean b) = b"
| "truthy (JNumber n) = num_truthy n"
| "truthy (JString s) = (s \<noteq> [])"
| "truthy (JArray xs) = True"
| "truthy (JObject kvs) = True"

definition js_or :: "jsval \<Rightarrow> jsval \<Rightarrow> jsval" where
  "js_or a b = (if truthy a then a else b)"

text \<open>
  Reading a property \<open>v.p\<close>: \<open>None\<close> stands for the TypeError raised when \<open>v\<close> is
  \<open>null\<close> or \<open>undefined\<close>. An object yields its own property or \<open>undefined\<close>. The
  names read by the front end (\<open>detail\<close>, \<open>msg\<close>, \<open>message\<close>, \<open>filename\<close>,
  \<open>text_length\<close>) are not defined on the prototypes of booleans, numbers, strings and arrays,
  which therefore yield \<open>undefined\<close>.
\<close>

fun get_prop :: "jsval \<Rightarrow> string \<Rightarrow> jsval option" where
  "get_prop JUndefined p = None"
| "get_prop JNull p = None"
| "get_prop (JObject kvs) p = Some (case map_of kvs p of None \<Rightarrow> JUndefined | Some v \<Rightarrow> v)"
| "get_prop v p = Some JUndefined"

text \<open>\<open>xs[0]\<close> on an array, and the optional chain \<open>v?.p\<close>.\<close>

fun first_item :: "jsval list \<Rightarrow> jsval" where
  "first_item [] = JUndefined"
| "first_item (x # xs) = x"

definition opt_chain :: "jsval \<Rightarrow> string \<Rightarrow> jsval" where
  "opt_chain v p = (case get_prop v p of None \<Rightarrow> JUndefined | Some w \<Rightarrow> w)"

text \<open>
  Thrown values. \<open>Error\<close> is an error constructed by the front end itself with
  \<open>new Error(msg)\<close>; \<open>TypeError\<close> and \<open>SyntaxError\<close> are raised by the engine (a rejected
  \<open>fetch\<close>, a property read on \<open>null\<close>, a body that is not JSON) with a message of the
  engine's choosing; \<open>NotAnError\<close> is any thrown value that is not an instance of \<open>Error\<close>.
\<close>

datatype js_exn = Error string | TypeError string | SyntaxError string | NotAnError

text \<open>\<open>err instanceof Error ? err.message : d\<close>\<close>

fun message_or :: "js_exn \<Rightarrow> string \<Rightarrow> string" where
  "message_or (Error m) d = m"
| "message_or (TypeError m) d = m"
| "message_or (SyntaxError m) d = m"
| "message_or NotAnError d = d"

text \<open>
  What the engine decides: the string conversion applied by \<open>new Error(v)\<close> to a value that
  is not a string, the message of the TypeError for a property read on \<open>null\<close>, and the
  number denoted by a string (NaN when it denotes none).
\<close>

record js_engine =
  ToString :: "jsval \<Rightarrow> string"
  null_read_message :: string
  StringToNumber :: "string \<Rightarrow> jsnum"

text \<open>
  \<open>Number(v)\<close>: a number is returned as it is, \<open>undefined\<close> gives NaN, \<open>null\<close> gives 0,
  a boolean gives 0 or 1, a string gives the number it denotes, and an array or object is first
  converted to a string.
\<close>

fun Number_of :: "js_engine \<Rightarrow> jsval \<Rightarrow> jsnum" where
  "Number_of eng JUndefined = NaN"
| "Number_of eng JNull = Finite 0"
| "Number_of eng (JBoolean b) = Finite (if b then 1 else 0)"
| "Number_of eng (JNumber n) = n"
| "Number_of eng (JString s) = StringToNumber eng s"
| "Number_of eng (JArray xs) = StringToNumber eng (ToString eng (JArray xs))"
| "Number_of eng (JObject kvs) = StringToNumber eng (ToString eng (JObject kvs))"

fun Error_of :: "js_engine \<Rightarrow> jsval \<Rightarrow> js_exn" where
  "Error_of eng (JString s) = Error s"
| "Error_of eng v = Error (ToString eng v)"

text \<open>
  An engine for the examples below: a property read on \<open>null\<close> is reported as
  \<open>data is null\<close>; the two conversions are only applied where their result is the one given
  here (a plain object as a string, a string that denotes no number).
\<close>

definition example_engine :: js_engine where
  "example_engine =
     \<lparr>ToString = (\<lambda>v. ''[object Object]''), null_read_message = ''data is null'',
      StringToNumber = (\<lambda>t. NaN)\<rparr>"


section \<open>API client (api.ts)\<close>

datatype ChatRole = User | Assistant

record ChatMessage =
  role :: ChatRole
  content :: string

record MatchAnalysis =
  match_score :: jsnum
  strengths :: "string list"
  gaps :: "string list"
  key_insights :: "string list"
  skill_overlap :: "string list"
  missing_skills :: "string list"

record UploadResponse =
  success :: bool
  message :: string
  filename :: "string option"
  text_length :: "jsnum option"

record AnalysisResponse =
  success :: bool
  analysis :: "MatchAnalysis option"
  error :: "string option"

record ChatRequest =
  question :: string
  history :: "ChatMessage list"

record ChatResponse =
  success :: bool
  answer :: string
  error :: "string option"

record File =
  name :: string
  bytes :: "nat list"

text \<open>
  An HTTP exchange. A request has a URL, a method and a body. A response has its \<open>ok\<close> flag,
  the text of its body (\<open>res.text()\<close>) and the outcome of \<open>res.json()\<close>: the decoded
  body, at the type the caller declares for it, or the message of the SyntaxError raised when
  the body is not JSON. \<open>fetch\<close> itself resolves with a response, or rejects with a
  TypeError whose message it is given here.
\<close>

datatype request_body = NoBody | FormData "(string \<times> File) list" | JsonBody ChatRequest

record Request =
  url :: string
  http_method :: string
  body :: request_body

record 'b Response =
  ok :: bool
  body_text :: string
  json :: "string + 'b"

type_synonym 'b fetched = "string + 'b Response"

type_synonym 'b fetch = "Request \<Rightarrow> 'b fetched"

text \<open>A network that settles every request in the same way.\<close>

definition answering :: "'b fetched \<Rightarrow> 'b fetch" where
  "answering outcome req = outcome"

text \<open>A network that settles one request in one way and every other request in another.\<close>

definition answering_only :: "Request \<Rightarrow> 'b fetched \<Rightarrow> 'b fetched \<Rightarrow> 'b fetch" where
  "answering_only r yes no req = (if req = r then yes else no)"

definition await_fetch :: "'b fetched \<Rightarrow> js_exn + 'b Response" where
  "await_fetch fetched = (case fetched of Inl m \<Rightarrow> Inl (TypeError m) | Inr res \<Rightarrow> Inr res)"

definition await_json :: "'b Response \<Rightarrow> js_exn + 'b" where
  "await_json res = (case json res of Inl m \<Rightarrow> Inl (SyntaxError m) | Inr v \<Rightarrow> Inr v)"

definition API_BASE :: string where
  "API_BASE = ''/api''"

definition uploadResume_request :: "File \<Rightarrow> Request" where
  "uploadResume_request f =
     \<lparr>url = API_BASE @ ''/upload/resume'', http_method = ''POST'', body = FormData [(''file'', f)]\<rparr>"

definition uploadResume :: "UploadResponse fetch \<Rightarrow> File \<Rightarrow> js_exn + UploadResponse" where
  "uploadResume fetch f =
     (case await_fetch (fetch (uploadResume_request f)) of
        Inl e \<Rightarrow> Inl e
      | Inr res \<Rightarrow> if \<not> ok res then Inl (Error (body_text res)) else await_json res)"

definition uploadJD_request :: "File \<Rightarrow> Request" where
  "uploadJD_request f =
     \<lparr>url = API_BASE @ ''/upload/jd'', http_method = ''POST'', body = FormData [(''file'', f)]\<rparr>"

definition uploadJD :: "UploadResponse fetch \<Rightarrow> File \<Rightarrow> js_exn + UploadResponse" where
  "uploadJD fetch f =
     (case await_fetch (fetch (uploadJD_request f)) of
        Inl e \<Rightarrow> Inl e
      | Inr res \<Rightarrow> if \<not> ok res then Inl (Error (body_text res)) else await_json res)"

definition getAnalysis_request :: Request where
  "getAnalysis_request = \<lparr>url = API_BASE @ ''/analysis'', http_method = ''GET'', body = NoBody\<rparr>"

definition getAnalysis :: "AnalysisResponse fetch \<Rightarrow> js_exn + AnalysisResponse" where
  "getAnalysis fetch =
     (case await_fetch (fetch getAnalysis_request) of
        Inl e \<Rightarrow> Inl e
      | Inr res \<Rightarrow> await_json res)"

definition chat_request :: "string \<Rightarrow> ChatMessage list \<Rightarrow> Request" where
  "chat_request q h =
     \<lparr>url = API_BASE @ ''/chat'', http_method = ''POST'',
      body = JsonBody \<lparr>question = q, history = h\<rparr>\<rparr>"

definition chat :: "ChatResponse fetch \<Rightarrow> string \<Rightarrow> ChatMessage list \<Rightarrow> js_exn + ChatResponse" where
  "chat fetch q h =
     (case await_fetch (fetch (chat_request q h)) of
        Inl e \<Rightarrow> Inl e
      | Inr res \<Rightarrow> await_json res)"


section \<open>MatchAnalysis component\<close>

text \<open>
  \<open>const score = Math.max(0, Math.min(100, Number(match_score) || 0))\<close>, first for whatever
  value \<open>match_score\<close> holds when the component runs, then for a value of the declared type
  \<open>MatchAnalysis\<close>, whose \<open>match_score\<close> is a number.
\<close>

definition score_of :: "js_engine \<Rightarrow> jsval \<Rightarrow> jsnum" where
  "score_of eng v =
     Math_max (Finite 0) (Math_min (Finite 100) (num_or (Number_of eng v) (Finite 0)))"

definition MatchAnalysis_score :: "js_engine \<Rightarrow> MatchAnalysis \<Rightarrow> jsnum" where
  "MatchAnalysis_score eng data = score_of eng (JNumber (match_score data))"


section \<open>ChatInterface component\<close>

text \<open>
  The component's state is the four \<open>useState\<close> cells. A state setter takes effect before
  the next event is handled: the component is rendered again after each handler, so the next
  handler reads the updated cells.
\<close>

record ChatInterface_state =
  messages :: "ChatMessage list"
  input :: string
  loading :: bool
  error :: "string option"

definition ChatInterface_initial :: ChatInterface_state where
  "ChatInterface_initial = \<lparr>messages = [], input = [], loading = False, error = None\<rparr>"

text \<open>
  \<open>handleSubmit\<close> up to its \<open>await\<close>: the guard on the trimmed input and on
  \<open>loading\<close>, then the user's message is appended and \<open>loading\<close> is set.
\<close>

definition handleSubmit_begin :: "ChatInterface_state \<Rightarrow> ChatInterface_state" where
  "handleSubmit_begin s =
     (let q = trim (input s) in
      if q = [] \<or> loading s then s
      else s\<lparr>input := [], ChatInterface_state.error := None,
             messages := messages s @ [\<lparr>role = User, content = q\<rparr>], loading := True\<rparr>)"

text \<open>
  The request handed to \<open>fetch\<close> by the call \<open>chat(q, messages)\<close>, where \<open>messages\<close> is
  the list the handler was rendered with; \<open>None\<close> when the guard returns early.
\<close>

definition handleSubmit_sends :: "ChatInterface_state \<Rightarrow> Request option" where
  "handleSubmit_sends s =
     (let q = trim (input s) in
      if q = [] \<or> loading s then None else Some (chat_request q (messages s)))"

text \<open>
  \<open>handleSubmit\<close> after the \<open>await\<close>, on the state of that moment: the argument is what
  \<open>chat\<close> returned, or what it threw. The setter of \<open>messages\<close> is given a function of the
  previous list.
\<close>

definition handleSubmit_settle :: "js_exn + ChatResponse \<Rightarrow> ChatInterface_state \<Rightarrow> ChatInterface_state" where
  "handleSubmit_settle r s =
     (case r of
        Inr res \<Rightarrow>
          if ChatResponse.success res
          then s\<lparr>messages := messages s @ [\<lparr>role = Assistant, content = answer res\<rparr>]\<rparr>
          else s\<lparr>ChatInterface_state.error :=
                   Some (str_or (ChatResponse.error res) ''Failed to get response'')\<rparr>
      | Inl e \<Rightarrow> s\<lparr>ChatInterface_state.error := Some ''Failed to send message''\<rparr>)
     \<lparr>loading := False\<rparr>"

text \<open>The whole handler, when nothing else happens while the request is pending.\<close>

definition handleSubmit :: "ChatResponse fetch \<Rightarrow> ChatInterface_state \<Rightarrow> ChatInterface_state" where
  "handleSubmit fetch s =
     (let q = trim (input s) in
      if q = [] \<or> loading s then s
      else handleSubmit_settle (chat fetch q (messages s)) (handleSubmit_begin s))"

text \<open>What the form renders: the text input and the Send button.\<close>

definition input_disabled :: "ChatInterface_state \<Rightarrow> bool" where
  "input_disabled s = loading s"

definition send_disabled :: "ChatInterface_state \<Rightarrow> bool" where
  "send_disabled s = (loading s \<or> trim (input s) = [])"

text \<open>
  The component over time. \<open>Submit\<close> is the form's submit event, \<open>Settled r\<close> the end of
  the oldest pending call of \<open>chat\<close> with its outcome, \<open>SetInput v\<close> a change of the text
  (typing, or a click on a suggestion). Besides the state, a run records the requests that are
  pending and all requests sent so far.
\<close>

datatype ChatInterface_event = Submit | Settled "js_exn + ChatResponse" | SetInput string

record ChatInterface_run =
  ui :: ChatInterface_state
  in_flight :: "Request list"
  sent :: "Request list"

definition ChatInterface_start :: ChatInterface_run where
  "ChatInterface_start = \<lparr>ui = ChatInterface_initial, in_flight = [], sent = []\<rparr>"

fun ChatInterface_step :: "ChatInterface_event \<Rightarrow> ChatInterface_run \<Rightarrow> ChatInterface_run" where
  "ChatInterface_step Submit c =
     (case handleSubmit_sends (ui c) of
        None \<Rightarrow> c\<lparr>ui := handleSubmit_begin (ui c)\<rparr>
      | Some req \<Rightarrow>
          c\<lparr>ui := handleSubmit_begin (ui c), in_flight := in_flight c @ [req], sent := sent c @ [req]\<rparr>)"
| "ChatInterface_step (Settled r) c =
     (case in_flight c of
        [] \<Rightarrow> c
      | req # rest \<Rightarrow> c\<lparr>ui := handleSubmit_settle r (ui c), in_flight := rest\<rparr>)"
| "ChatInterface_step (SetInput v) c = c\<lparr>ui := (ui c)\<lparr>input := v\<rparr>\<rparr>"

definition ChatInterface_exec :: "ChatInterface_event list \<Rightarrow> ChatInterface_run" where
  "ChatInterface_exec evs = foldl (\<lambda>c e. ChatInterface_step e c) ChatInterface_start evs"


text \<open>
  Two properties of a run: at most one request is pending, and exactly while \<open>loading\<close>
  holds; a request that was sent carries as history a list of messages after which the
  conversation held by the component continues with the question of that request.
\<close>

definition one_pending :: "ChatInterface_run \<Rightarrow> bool" where
  "one_pending c =
     (length (in_flight c) \<le> 1 \<and> (ChatInterface_state.loading (ui c) = (in_flight c \<noteq> [])))"

definition history_before :: "ChatInterface_run \<Rightarrow> Request \<Rightarrow> bool" where
  "history_before c req =
     (\<exists>q h. req = chat_request q h \<and> prefix (h @ [\<lparr>role = User, content = q\<rparr>]) (messages (ui c)))"


section \<open>FileUpload component\<close>

datatype upload_status = StatusIdle | StatusUploading | StatusSuccess | StatusError

text \<open>The object handed to \<open>onSuccess\<close>: three properties copied from the response body.\<close>

record upload_info =
  filename :: jsval
  text_length :: jsval
  message :: jsval

record FileUpload_state =
  file_picked :: "File option"
  status :: upload_status
  message :: jsval
  isDragging :: bool

definition FileUpload_initial :: FileUpload_state where
  "FileUpload_initial =
     \<lparr>file_picked = None, status = StatusIdle, message = JString [], isDragging = False\<rparr>"

definition setPickedFile :: "File option \<Rightarrow> FileUpload_state \<Rightarrow> FileUpload_state" where
  "setPickedFile f s = s\<lparr>file_picked := f, status := StatusIdle, FileUpload_state.message := JString []\<rparr>"

definition handleChange :: "File option \<Rightarrow> FileUpload_state \<Rightarrow> FileUpload_state" where
  "handleChange f s = s\<lparr>file_picked := f, status := StatusIdle, FileUpload_state.message := JString []\<rparr>"

definition handleUpload_request :: "string \<Rightarrow> File \<Rightarrow> Request" where
  "handleUpload_request endpoint f =
     \<lparr>url = endpoint, http_method = ''POST'', body = FormData [(''file'', f)]\<rparr>"

definition handleUpload_begin :: "FileUpload_state \<Rightarrow> FileUpload_state" where
  "handleUpload_begin s =
     (case file_picked s of
        None \<Rightarrow> s
      | Some f \<Rightarrow> s\<lparr>status := StatusUploading, FileUpload_state.message := JString []\<rparr>)"

text \<open>\<open>const data = await res.json().catch(() => ({}))\<close>\<close>

definition response_data :: "jsval Response \<Rightarrow> jsval" where
  "response_data res = (case await_json res of Inl e \<Rightarrow> JObject [] | Inr v \<Rightarrow> v)"

definition read_prop :: "js_engine \<Rightarrow> jsval \<Rightarrow> string \<Rightarrow> js_exn + jsval" where
  "read_prop eng v p =
     (case get_prop v p of
        None \<Rightarrow> Inl (TypeError (null_read_message eng))
      | Some w \<Rightarrow> Inr w)"

text \<open>
  \<open>typeof detail === "string" ? detail : Array.isArray(detail) ? detail[0]?.msg : "Upload failed"\<close>
\<close>

definition detail_err :: "jsval \<Rightarrow> jsval" where
  "detail_err detail =
     (case detail of
        JString d \<Rightarrow> JString d
      | JArray xs \<Rightarrow> opt_chain (first_item xs) ''msg''
      | _ \<Rightarrow> JString ''Upload failed'')"

text \<open>
  The body of the \<open>try\<close> block after \<open>fetch\<close> has settled: either a value is thrown, or
  the block completes with the message to display and the object for \<open>onSuccess\<close>.
\<close>

definition handleUpload_try :: "js_engine \<Rightarrow> jsval fetched \<Rightarrow> js_exn + (jsval \<times> upload_info)" where
  "handleUpload_try eng fetched =
     (case await_fetch fetched of
        Inl e \<Rightarrow> Inl e
      | Inr res \<Rightarrow>
          let data = response_data res in
          if \<not> ok res then
            (case read_prop eng data ''detail'' of
               Inl e \<Rightarrow> Inl e
             | Inr detail \<Rightarrow>
                 Inl (Error_of eng (js_or (detail_err detail) (JString ''Upload failed''))))
          else
            (case read_prop eng data ''message'' of
               Inl e \<Rightarrow> Inl e
             | Inr m \<Rightarrow>
                 (case read_prop eng data ''filename'' of
                    Inl e \<Rightarrow> Inl e
                  | Inr fname \<Rightarrow>
                      (case read_prop eng data ''text_length'' of
                         Inl e \<Rightarrow> Inl e
                       | Inr len \<Rightarrow>
                           Inr (js_or m (JString ''Uploaded''),
                                \<lparr>filename = fname, text_length = len, message = m\<rparr>)))))"

text \<open>The call of \<open>onSuccess\<close> made by the handler, if any.\<close>

definition handleUpload_onSuccess :: "js_engine \<Rightarrow> jsval fetched \<Rightarrow> upload_info option" where
  "handleUpload_onSuccess eng fetched =
     (case handleUpload_try eng fetched of
        Inl e \<Rightarrow> None
      | Inr (msg, info) \<Rightarrow> Some info)"

definition handleUpload_settle :: "js_engine \<Rightarrow> jsval fetched \<Rightarrow> FileUpload_state \<Rightarrow> FileUpload_state" where
  "handleUpload_settle eng fetched s =
     (case handleUpload_try eng fetched of
        Inl err \<Rightarrow>
          s\<lparr>status := StatusError,
            FileUpload_state.message := JString (message_or err ''Upload failed'')\<rparr>
      | Inr (msg, info) \<Rightarrow> s\<lparr>status := StatusSuccess, FileUpload_state.message := msg\<rparr>)"

text \<open>
  The whole handler: the new state and the call of \<open>onSuccess\<close>. Without a file it returns
  at once.
\<close>

definition handleUpload :: "js_engine \<Rightarrow> string \<Rightarrow> jsval fetch \<Rightarrow> FileUpload_state \<Rightarrow> FileUpload_state \<times> upload_info option" where
  "handleUpload eng endpoint fetch s =
     (case file_picked s of
        None \<Rightarrow> (s, None)
      | Some f \<Rightarrow>
          (handleUpload_settle eng (fetch (handleUpload_request endpoint f)) (handleUpload_begin s),
           handleUpload_onSuccess eng (fetch (handleUpload_request endpoint f))))"


section \<open>App component\<close>

record App_state =
  resumeUploaded :: bool
  jdUploaded :: bool
  analysis :: "MatchAnalysis option"
  analysisError :: "string option"
  loading :: bool
  backendOk :: "bool option"
  resumeInfo :: "upload_info option"
  jdInfo :: "upload_info option"

definition App_initial :: App_state where
  "App_initial =
     \<lparr>resumeUploaded = False, jdUploaded = False, analysis = None, analysisError = None,
      loading = False, backendOk = None, resumeInfo = None, jdInfo = None\<rparr>"

definition handleResumeUpload :: "upload_info \<Rightarrow> App_state \<Rightarrow> App_state" where
  "handleResumeUpload info s =
     s\<lparr>resumeUploaded := True, App_state.analysis := None, analysisError := None,
       resumeInfo := Some info\<rparr>"

definition handleJDUpload :: "upload_info \<Rightarrow> App_state \<Rightarrow> App_state" where
  "handleJDUpload info s =
     s\<lparr>jdUploaded := True, App_state.analysis := None, analysisError := None,
       jdInfo := Some info\<rparr>"

definition loadAnalysis_request :: Request where
  "loadAnalysis_request = \<lparr>url = ''/api/analysis'', http_method = ''GET'', body = NoBody\<rparr>"

definition loadAnalysis_begin :: "App_state \<Rightarrow> App_state" where
  "loadAnalysis_begin s = s\<lparr>App_state.loading := True, analysisError := None\<rparr>"

text \<open>
  \<open>loadAnalysis\<close> after \<open>fetch\<close> has settled. The body is read at the type
  \<open>AnalysisResponse\<close> that the API client declares for this endpoint; a rejected \<open>fetch\<close>
  and a body that is not JSON both end in the \<open>catch\<close> block.
\<close>

definition loadAnalysis_settle :: "AnalysisResponse fetched \<Rightarrow> App_state \<Rightarrow> App_state" where
  "loadAnalysis_settle fetched s =
     (case (case await_fetch fetched of Inl e \<Rightarrow> Inl e | Inr res \<Rightarrow> await_json res) of
        Inr data \<Rightarrow>
          (case (AnalysisResponse.success data, AnalysisResponse.analysis data) of
             (True, Some a) \<Rightarrow> s\<lparr>App_state.analysis := Some a\<rparr>
           | _ \<Rightarrow> s\<lparr>analysisError :=
                      Some (str_or (AnalysisResponse.error data) ''Failed to load analysis'')\<rparr>)
      | Inl e \<Rightarrow> s\<lparr>analysisError := Some ''Failed to fetch analysis''\<rparr>)
     \<lparr>App_state.loading := False\<rparr>"

definition loadAnalysis :: "AnalysisResponse fetch \<Rightarrow> App_state \<Rightarrow> App_state" where
  "loadAnalysis fetch s = loadAnalysis_settle (fetch loadAnalysis_request) (loadAnalysis_begin s)"

definition canAnalyze :: "App_state \<Rightarrow> bool" where
  "canAnalyze s = (resumeUploaded s \<and> jdUploaded s)"

text \<open>
  What the two sections render. The analysis section shows a hint, or the Run button (disabled
  while loading), the error paragraph when \<open>analysisError\<close> is a non-empty string, and the
  MatchAnalysis component when an analysis is held. The chat section shows a hint or the
  ChatInterface component.
\<close>

datatype analysis_section =
    AnalysisHint
  | AnalysisPanel bool "string option" "MatchAnalysis option"

definition render_analysis_section :: "App_state \<Rightarrow> analysis_section" where
  "render_analysis_section s =
     (if \<not> canAnalyze s then AnalysisHint
      else AnalysisPanel (App_state.loading s)
             (case analysisError s of
                None \<Rightarrow> None
              | Some e \<Rightarrow> if e = [] then None else Some e)
             (App_state.analysis s))"

datatype chat_section = ChatHint | ChatInterfaceShown

definition render_chat_section :: "App_state \<Rightarrow> chat_section" where
  "render_chat_section s = (if \<not> resumeUploaded s then ChatHint else ChatInterfaceShown)"

text \<open>
  The application over time. An upload event is the end of the \<open>fetch\<close> of one of the two
  FileUpload components, which calls the handler it was given as \<open>onSuccess\<close>. A click on
  Run analysis exists only while the button is rendered and enabled. An event of the
  ChatInterface exists only while that component is rendered. The health check stores whether
  \<open>/health\<close> answered OK.
\<close>

datatype App_event =
    ResumeUploadSettled "jsval fetched"
  | JDUploadSettled "jsval fetched"
  | ClickRunAnalysis
  | AnalysisSettled "AnalysisResponse fetched"
  | HealthChecked "unit fetched"
  | ChatEvent ChatInterface_event

record App_run =
  app :: App_state
  chat_ui :: ChatInterface_run
  analysis_in_flight :: nat
  analysis_sent :: "Request list"

definition App_start :: App_run where
  "App_start =
     \<lparr>app = App_initial, chat_ui = ChatInterface_start, analysis_in_flight = 0, analysis_sent = []\<rparr>"

fun App_step :: "js_engine \<Rightarrow> App_event \<Rightarrow> App_run \<Rightarrow> App_run" where
  "App_step eng (ResumeUploadSettled fetched) r =
     (case handleUpload_onSuccess eng fetched of
        None \<Rightarrow> r
      | Some info \<Rightarrow> r\<lparr>app := handleResumeUpload info (app r)\<rparr>)"
| "App_step eng (JDUploadSettled fetched) r =
     (case handleUpload_onSuccess eng fetched of
        None \<Rightarrow> r
      | Some info \<Rightarrow> r\<lparr>app := handleJDUpload info (app r)\<rparr>)"
| "App_step eng ClickRunAnalysis r =
     (case render_analysis_section (app r) of
        AnalysisPanel False err shown \<Rightarrow>
          r\<lparr>app := loadAnalysis_begin (app r),
            analysis_in_flight := Suc (analysis_in_flight r),
            analysis_sent := analysis_sent r @ [loadAnalysis_request]\<rparr>
      | _ \<Rightarrow> r)"
| "App_step eng (AnalysisSettled fetched) r =
     (case analysis_in_flight r of
        0 \<Rightarrow> r
      | Suc n \<Rightarrow> r\<lparr>app := loadAnalysis_settle fetched (app r), analysis_in_flight := n\<rparr>)"
| "App_step eng (HealthChecked fetched) r =
     r\<lparr>app := (app r)\<lparr>backendOk := Some (case fetched of Inl e \<Rightarrow> False | Inr res \<Rightarrow> ok res)\<rparr>\<rparr>"
| "App_step eng (ChatEvent e) r =
     (case render_chat_section (app r) of
        ChatHint \<Rightarrow> r
      | ChatInterfaceShown \<Rightarrow> r\<lparr>chat_ui := ChatInterface_step e (chat_ui r)\<rparr>)"

definition App_exec :: "js_engine \<Rightarrow> App_event list \<Rightarrow> App_run" where
  "App_exec eng evs = foldl (\<lambda>r e. App_step eng e r) App_start evs"

text \<open>Whether an upload event is a successful upload: the handler calls \<open>onSuccess\<close>.\<close>

definition resume_upload_succeeded :: "js_engine \<Rightarrow> App_event \<Rightarrow> bool" where
  "resume_upload_succeeded eng e =
     (case e of
        ResumeUploadSettled fetched \<Rightarrow> handleUpload_onSuccess eng fetched \<noteq> None
      | _ \<Rightarrow> False)"

definition jd_upload_succeeded :: "js_engine \<Rightarrow> App_event \<Rightarrow> bool" where
  "jd_upload_succeeded eng e =
     (case e of
        JDUploadSettled fetched \<Rightarrow> handleUpload_onSuccess eng fetched \<noteq> None
      | _ \<Rightarrow> False)"


text \<open>
  The reading of an analysis response used to state what \<open>loadAnalysis\<close> does: the analysis
  carried by a response with \<open>success\<close> true and an analysis object, if there is one, and
  otherwise the error string to show: the response's \<open>error\<close> field, or a fixed fallback.
\<close>

definition successful_analysis :: "AnalysisResponse fetched \<Rightarrow> MatchAnalysis option" where
  "successful_analysis fetched =
     (case fetched of
        Inl m \<Rightarrow> None
      | Inr res \<Rightarrow>
          (case json res of
             Inl m \<Rightarrow> None
           | Inr data \<Rightarrow> if AnalysisResponse.success data then AnalysisResponse.analysis data else None))"

definition failure_message :: "AnalysisResponse fetched \<Rightarrow> string" where
  "failure_message fetched =
     (case fetched of
        Inl m \<Rightarrow> ''Failed to fetch analysis''
      | Inr res \<Rightarrow>
          (case json res of
             Inl m \<Rightarrow> ''Failed to fetch analysis''
           | Inr data \<Rightarrow>
               (case AnalysisResponse.error data of
                  None \<Rightarrow> ''Failed to load analysis''
                | Some e \<Rightarrow> if e = [] then ''Failed to load analysis'' else e)))"


section \<open>Context assembler\<close>

text \<open>
  Modelled from the spec: the context assembler (section 4.5, \<open>assemble(chunks, question,
  history) -> prompt payload\<close>) belongs to the back end, whose code is not among the sources.
  The payload holds the fixed system directive, the text of the retrieved chunks only, the
  conversation history truncated to at most the last 6 messages with the oldest message of
  that window first, and the question.
\<close>

record Chunk =
  chunk_id :: int
  section_label :: "string option"
  chunk_text :: string

record prompt_payload =
  system_directive :: string
  context_texts :: "string list"
  payload_history :: "ChatMessage list"
  payload_question :: string

definition HISTORY_LIMIT :: nat where
  "HISTORY_LIMIT = 6"

definition truncate_history :: "ChatMessage list \<Rightarrow> ChatMessage list" where
  "truncate_history h = rev (take HISTORY_LIMIT (rev h))"

definition SYSTEM_DIRECTIVE :: string where
  "SYSTEM_DIRECTIVE = ''Answer only from the supplied context; say so when it is insufficient.''"

definition assemble :: "Chunk list \<Rightarrow> string \<Rightarrow> ChatMessage list \<Rightarrow> prompt_payload" where
  "assemble chunks q h =
     \<lparr>system_directive = SYSTEM_DIRECTIVE, context_texts = map chunk_text chunks,
      payload_history = truncate_history h, payload_question = q\<rparr>"


section \<open>Verified properties\<close>

subsection \<open>The rendered score\<close>

lemma num_or_zero_cases: "num_or m (Finite 0) = (if m = NaN then Finite 0 else m)"
  by (cases m) (auto simp: num_or_def num_truthy_def)

lemma clamp_cases:
  "Math_max (Finite 0) (Math_min (Finite 100) (if m = NaN then Finite 0 else m)) =
     (case m of
        Finite x \<Rightarrow> Finite (max 0 (min 100 x))
      | NaN \<Rightarrow> Finite 0
      | PosInfinity \<Rightarrow> Finite 100
      | NegInfinity \<Rightarrow> Finite 0)"
  by (cases m) simp_all

text \<open>
  Claim C1, amended. The score rendered by the MatchAnalysis component is \<open>match_score\<close>
  clamped to the interval from 0 to 100, that is \<open>max(0, min(100, Number(match_score)))\<close>;
  when \<open>match_score\<close> is NaN, or is a value that \<open>Number\<close> converts to NaN, the rendered
  score is 0; a value that is not a number but that \<open>Number\<close> converts to one is rendered as
  that number, clamped. In every case the rendered score is a finite number between 0 and 100.
\<close>

theorem MatchAnalysis_score_clamped:
  "MatchAnalysis_score eng data =
     (if match_score data = NaN then Finite 0
      else Math_max (Finite 0) (Math_min (Finite 100) (match_score data)))
   \<and> MatchAnalysis_score eng data =
     (case match_score data of
        Finite x \<Rightarrow> Finite (max 0 (min 100 x))
      | NaN \<Rightarrow> Finite 0
      | PosInfinity \<Rightarrow> Finite 100
      | NegInfinity \<Rightarrow> Finite 0)
   \<and> (\<exists>r. MatchAnalysis_score eng data = Finite r \<and> 0 \<le> r \<and> r \<le> 100)
   \<and> score_of eng v =
     (if Number_of eng v = NaN then Finite 0
      else Math_max (Finite 0) (Math_min (Finite 100) (Number_of eng v)))
   \<and> (\<exists>r. score_of eng v = Finite r \<and> 0 \<le> r \<and> r \<le> 100)"
proof -
  have g: "score_of eng w =
     (case Number_of eng w of
        Finite x \<Rightarrow> Finite (max 0 (min 100 x))
      | NaN \<Rightarrow> Finite 0
      | PosInfinity \<Rightarrow> Finite 100
      | NegInfinity \<Rightarrow> Finite 0)" for w
    by (simp only: score_of_def num_or_zero_cases clamp_cases)
  have r: "\<exists>r. score_of eng w = Finite r \<and> 0 \<le> r \<and> r \<le> 100" for w
    unfolding g by (cases "Number_of eng w") simp_all
  have f: "score_of eng w =
     (if Number_of eng w = NaN then Finite 0
      else Math_max (Finite 0) (Math_min (Finite 100) (Number_of eng w)))" for w
    unfolding g by (cases "Number_of eng w") simp_all
  have a: "MatchAnalysis_score eng data =
     (if match_score data = NaN then Finite 0
      else Math_max (Finite 0) (Math_min (Finite 100) (match_score data)))"
    using f [of "JNumber (match_score data)"] by (simp add: MatchAnalysis_score_def)
  have b: "MatchAnalysis_score eng data =
     (case match_score data of
        Finite x \<Rightarrow> Finite (max 0 (min 100 x))
      | NaN \<Rightarrow> Finite 0
      | PosInfinity \<Rightarrow> Finite 100
      | NegInfinity \<Rightarrow> Finite 0)"
    using g [of "JNumber (match_score data)"] by (simp add: MatchAnalysis_score_def)
  have c: "\<exists>r. MatchAnalysis_score eng data = Finite r \<and> 0 \<le> r \<and> r \<le> 100"
    using r [of "JNumber (match_score data)"] by (simp add: MatchAnalysis_score_def)
  show ?thesis by (intro conjI a b c f r)
qed

theorem MatchAnalysis_score_clamped_witness:
  "MatchAnalysis_score
     example_engine
     \<lparr>match_score = Finite 250, strengths = [], gaps = [], key_insights = [],
      skill_overlap = [], missing_skills = []\<rparr> = Finite 100
   \<and> MatchAnalysis_score
     example_engine
     \<lparr>match_score = NaN, strengths = [], gaps = [], key_insights = [],
      skill_overlap = [], missing_skills = []\<rparr> = Finite 0
   \<and> score_of
     example_engine (JString ''n/a'') = Finite 0"
proof -
  let ?eng = "example_engine"
  let ?hi = "\<lparr>match_score = Finite 250, strengths = [], gaps = [], key_insights = [],
      skill_overlap = [], missing_skills = []\<rparr>"
  let ?nan = "\<lparr>match_score = NaN, strengths = [], gaps = [], key_insights = [],
      skill_overlap = [], missing_skills = []\<rparr>"
  from MatchAnalysis_score_clamped [where eng = ?eng and data = ?hi, THEN conjunct1]
  have a: "MatchAnalysis_score ?eng ?hi = Finite 100" by simp
  from MatchAnalysis_score_clamped [where eng = ?eng and data = ?nan, THEN conjunct1]
  have b: "MatchAnalysis_score ?eng ?nan = Finite 0" by simp
  from MatchAnalysis_score_clamped [where eng = ?eng and v = "JString ''n/a''",
      THEN conjunct2, THEN conjunct2, THEN conjunct2, THEN conjunct1]
  have c: "score_of ?eng (JString ''n/a'') = Finite 0" by (simp add: example_engine_def)
  from a b c show ?thesis by (intro conjI)
qed

text \<open>
  Claim C1 as first stated says that every \<open>match_score\<close> that is not a number renders 0.
  The boolean \<open>true\<close> is not a number, \<open>Number(true)\<close> is 1, and the rendered score is 1.
\<close>

theorem MatchAnalysis_score_clamped_counterexample:
  "score_of example_engine (JBoolean True) = Finite 1"
  by (simp add: score_of_def num_or_def num_truthy_def)

subsection \<open>ChatInterface: one submission\<close>

lemma dropWhile_all_iff: "(\<forall>x\<in>set (dropWhile P xs). P x) \<longleftrightarrow> (\<forall>x\<in>set xs. P x)"
proof
  assume a: "\<forall>x\<in>set (dropWhile P xs). P x"
  have "dropWhile P xs = []"
  proof (rule ccontr)
    assume ne: "dropWhile P xs \<noteq> []"
    then have "\<not> P (hd (dropWhile P xs))" by (rule hd_dropWhile)
    moreover from ne have "hd (dropWhile P xs) \<in> set (dropWhile P xs)" by simp
    ultimately show False using a by blast
  qed
  then show "\<forall>x\<in>set xs. P x" by simp
next
  assume "\<forall>x\<in>set xs. P x"
  then show "\<forall>x\<in>set (dropWhile P xs). P x" by (blast dest: set_dropWhileD)
qed

lemma trim_empty_iff: "trim v = [] \<longleftrightarrow> (\<forall>c\<in>set v. is_ws c)"
  by (simp add: trim_def dropWhile_all_iff)

lemma str_or_nonempty: "d \<noteq> [] \<Longrightarrow> str_or v d \<noteq> []"
  by (simp add: str_or_def split: option.splits)

text \<open>
  Claim C2. For a submission that passes the guard: when \<open>chat\<close> throws, or returns a
  response whose \<open>success\<close> is false, the message list gains exactly the user's message, no
  assistant message, and \<open>error\<close> is set to a non-empty string; the assistant's message is
  appended only when the response has \<open>success\<close> true.
\<close>

theorem handleSubmit_outcome:
  fixes s :: ChatInterface_state
  assumes "trim (input s) \<noteq> []" and "\<not> ChatInterface_state.loading s"
  shows "(case chat fetch (trim (input s)) (messages s) of
            Inr res \<Rightarrow>
              if ChatResponse.success res
              then messages (handleSubmit fetch s) =
                     messages s @ [\<lparr>role = User, content = trim (input s)\<rparr>,
                                   \<lparr>role = Assistant, content = answer res\<rparr>]
                   \<and> ChatInterface_state.error (handleSubmit fetch s) = None
              else messages (handleSubmit fetch s) =
                     messages s @ [\<lparr>role = User, content = trim (input s)\<rparr>]
                   \<and> ChatInterface_state.error (handleSubmit fetch s) =
                       Some (str_or (ChatResponse.error res) ''Failed to get response'')
                   \<and> str_or (ChatResponse.error res) ''Failed to get response'' \<noteq> []
          | Inl e \<Rightarrow>
              messages (handleSubmit fetch s) =
                messages s @ [\<lparr>role = User, content = trim (input s)\<rparr>]
              \<and> ChatInterface_state.error (handleSubmit fetch s) = Some ''Failed to send message'')
         \<and> \<not> ChatInterface_state.loading (handleSubmit fetch s)"
  using assms
  by (auto simp: handleSubmit_def handleSubmit_settle_def handleSubmit_begin_def Let_def
      str_or_nonempty split: sum.splits)

theorem handleSubmit_outcome_witness:
  "messages (handleSubmit (answering (Inl ''Failed to fetch'')) (ChatInterface_initial\<lparr>input := '' hi ''\<rparr>))
     = [\<lparr>role = User, content = ''hi''\<rparr>]
   \<and> ChatInterface_state.error
       (handleSubmit (answering (Inl ''Failed to fetch'')) (ChatInterface_initial\<lparr>input := '' hi ''\<rparr>))
     = Some ''Failed to send message''
   \<and> messages
       (handleSubmit
          (answering (Inr \<lparr>ok = True, body_text = [],
                      json = Inr \<lparr>success = False, answer = [], error = Some ''No resume indexed''\<rparr>\<rparr>))
          (ChatInterface_initial\<lparr>input := '' hi ''\<rparr>))
     = [\<lparr>role = User, content = ''hi''\<rparr>]"
  using handleSubmit_outcome [of "ChatInterface_initial\<lparr>input := '' hi ''\<rparr>"
      "answering (Inl ''Failed to fetch'')"]
    handleSubmit_outcome [of "ChatInterface_initial\<lparr>input := '' hi ''\<rparr>"
      "answering (Inr \<lparr>ok = True, body_text = [],
                  json = Inr \<lparr>success = False, answer = [], error = Some ''No resume indexed''\<rparr>\<rparr>)"]
  by (simp add: ChatInterface_initial_def trim_def is_ws_def chat_def await_fetch_def await_json_def
      answering_def)

subsection \<open>ChatInterface: runs\<close>

lemma ChatInterface_exec_Nil: "ChatInterface_exec [] = ChatInterface_start"
  by (simp add: ChatInterface_exec_def)

lemma ChatInterface_exec_snoc:
  "ChatInterface_exec (evs @ [e]) = ChatInterface_step e (ChatInterface_exec evs)"
  by (simp add: ChatInterface_exec_def)

lemma one_pending_step: "one_pending c \<Longrightarrow> one_pending (ChatInterface_step e c)"
proof (cases e)
  case Submit
  assume "one_pending c"
  then show ?thesis using Submit
    by (auto simp: one_pending_def handleSubmit_sends_def handleSubmit_begin_def Let_def
        split: option.splits if_splits)
next
  case (Settled r)
  assume "one_pending c"
  then show ?thesis using Settled
    by (cases "in_flight c") (auto simp: one_pending_def handleSubmit_settle_def split: sum.splits)
next
  case (SetInput v)
  assume "one_pending c"
  then show ?thesis using SetInput by (simp add: one_pending_def)
qed

lemma one_pending_exec: "one_pending (ChatInterface_exec evs)"
proof (induction evs rule: rev_induct)
  case Nil
  show ?case
    by (simp add: ChatInterface_exec_Nil one_pending_def ChatInterface_start_def ChatInterface_initial_def)
next
  case (snoc e evs)
  then show ?case by (simp add: ChatInterface_exec_snoc one_pending_step)
qed

lemma messages_step_prefix: "prefix (messages (ui c)) (messages (ui (ChatInterface_step e c)))"
proof (cases e)
  case Submit
  then show ?thesis
    by (auto simp: handleSubmit_sends_def handleSubmit_begin_def Let_def split: option.splits if_splits)
next
  case (Settled r)
  then show ?thesis
    by (cases "in_flight c") (auto simp: handleSubmit_settle_def split: sum.splits)
next
  case (SetInput v)
  then show ?thesis by simp
qed

lemma history_before_step:
  assumes "\<forall>req\<in>set (sent c). history_before c req"
  shows "\<forall>req\<in>set (sent (ChatInterface_step e c)). history_before (ChatInterface_step e c) req"
proof
  fix req assume m: "req \<in> set (sent (ChatInterface_step e c))"
  show "history_before (ChatInterface_step e c) req"
  proof (cases "req \<in> set (sent c)")
    case True
    with assms have "history_before c req" by blast
    then obtain q h where r: "req = chat_request q h"
      and p: "prefix (h @ [\<lparr>role = User, content = q\<rparr>]) (messages (ui c))"
      unfolding history_before_def by blast
    from p messages_step_prefix [of c e]
    have "prefix (h @ [\<lparr>role = User, content = q\<rparr>]) (messages (ui (ChatInterface_step e c)))"
      by (rule prefix_order.trans)
    with r show ?thesis unfolding history_before_def by blast
  next
    case False
    with m obtain ee: "e = Submit" and s: "handleSubmit_sends (ui c) = Some req"
      by (cases e) (auto split: option.splits list.splits)
    then show ?thesis
      by (auto simp: history_before_def handleSubmit_sends_def handleSubmit_begin_def Let_def
          split: if_splits)
  qed
qed

lemma history_before_exec:
  "\<forall>req\<in>set (sent (ChatInterface_exec evs)). history_before (ChatInterface_exec evs) req"
proof (induction evs rule: rev_induct)
  case Nil
  show ?case by (simp add: ChatInterface_exec_Nil ChatInterface_start_def)
next
  case (snoc e evs)
  from history_before_step [OF snoc.IH]
  show ?case by (simp add: ChatInterface_exec_snoc)
qed


text \<open>
  Claim C5, amended. The request sent by a submission has the body \<open>{question, history}\<close>
  and no other field. The question is the trimmed input. The history is the message list the
  component held before the submission: every earlier user message, answered or not, and the
  answers of the calls that succeeded. The user's new message is appended to the list after
  that history and is not sent in it. The handler sends exactly that request: a network that
  answers only that request makes it append the answer, a network that fails only that request
  makes it fail, and nothing else of the network matters. The conversation lives in the
  component: on every run, each request that was sent has a history after which the
  component's message list continues with the question of that request.
\<close>

theorem chat_request_history:
  fixes s :: ChatInterface_state
  shows "body (chat_request q h) = JsonBody \<lparr>question = q, history = h\<rparr>
   \<and> (handleSubmit_sends s = None \<or>
        handleSubmit_sends s = Some (chat_request (trim (input s)) (messages s))
        \<and> messages (handleSubmit_begin s) =
            messages s @ [\<lparr>role = User, content = trim (input s)\<rparr>])
   \<and> (fetch (chat_request (trim (input s)) (messages s)) =
        fetch' (chat_request (trim (input s)) (messages s))
      \<longrightarrow> handleSubmit fetch s = handleSubmit fetch' s)
   \<and> (\<forall>req\<in>set (sent (ChatInterface_exec evs)).
        \<exists>q' h'. body req = JsonBody \<lparr>question = q', history = h'\<rparr>
          \<and> prefix (h' @ [\<lparr>role = User, content = q'\<rparr>]) (messages (ui (ChatInterface_exec evs))))
   \<and> (trim (input s) \<noteq> [] \<and> \<not> ChatInterface_state.loading s \<longrightarrow>
        messages (handleSubmit
          (answering_only (chat_request (trim (input s)) (messages s))
             (Inr \<lparr>ok = True, body_text = [],
                   json = Inr \<lparr>success = True, answer = a, error = None\<rparr>\<rparr>)
             (Inl m)) s)
          = messages s @ [\<lparr>role = User, content = trim (input s)\<rparr>,
                          \<lparr>role = Assistant, content = a\<rparr>]
      \<and> messages (handleSubmit
          (answering_only (chat_request (trim (input s)) (messages s))
             (Inl m)
             (Inr \<lparr>ok = True, body_text = [],
                   json = Inr \<lparr>success = True, answer = a, error = None\<rparr>\<rparr>)) s)
          = messages s @ [\<lparr>role = User, content = trim (input s)\<rparr>])"
proof -
  have a: "body (chat_request q h) = JsonBody \<lparr>question = q, history = h\<rparr>"
    by (simp add: chat_request_def)
  have b: "handleSubmit_sends s = None \<or>
        handleSubmit_sends s = Some (chat_request (trim (input s)) (messages s))
        \<and> messages (handleSubmit_begin s) =
            messages s @ [\<lparr>role = User, content = trim (input s)\<rparr>]"
    by (simp add: handleSubmit_sends_def handleSubmit_begin_def Let_def)
  have c: "fetch (chat_request (trim (input s)) (messages s)) =
        fetch' (chat_request (trim (input s)) (messages s))
      \<longrightarrow> handleSubmit fetch s = handleSubmit fetch' s"
    by (simp add: handleSubmit_def chat_def Let_def)
  have d: "\<forall>req\<in>set (sent (ChatInterface_exec evs)).
        \<exists>q' h'. body req = JsonBody \<lparr>question = q', history = h'\<rparr>
          \<and> prefix (h' @ [\<lparr>role = User, content = q'\<rparr>]) (messages (ui (ChatInterface_exec evs)))"
    using history_before_exec [of evs] unfolding history_before_def
    by (auto simp: chat_request_def)
  have e: "trim (input s) \<noteq> [] \<and> \<not> ChatInterface_state.loading s \<longrightarrow>
        messages (handleSubmit
          (answering_only (chat_request (trim (input s)) (messages s))
             (Inr \<lparr>ok = True, body_text = [],
                   json = Inr \<lparr>success = True, answer = a, error = None\<rparr>\<rparr>)
             (Inl m)) s)
          = messages s @ [\<lparr>role = User, content = trim (input s)\<rparr>,
                          \<lparr>role = Assistant, content = a\<rparr>]
      \<and> messages (handleSubmit
          (answering_only (chat_request (trim (input s)) (messages s))
             (Inl m)
             (Inr \<lparr>ok = True, body_text = [],
                   json = Inr \<lparr>success = True, answer = a, error = None\<rparr>\<rparr>)) s)
          = messages s @ [\<lparr>role = User, content = trim (input s)\<rparr>]"
    by (simp add: handleSubmit_def handleSubmit_settle_def handleSubmit_begin_def chat_def
        answering_only_def await_fetch_def await_json_def Let_def)
  show ?thesis by (intro conjI a b c d e)
qed

theorem chat_request_history_witness:
  "body (chat_request ''b'' [\<lparr>role = User, content = ''a''\<rparr>])
     = JsonBody \<lparr>question = ''b'', history = [\<lparr>role = User, content = ''a''\<rparr>]\<rparr>
   \<and> handleSubmit_sends
       \<lparr>messages = [\<lparr>role = User, content = ''a''\<rparr>], input = '' b'', loading = False,
        error = Some ''Failed to send message''\<rparr>
     = Some (chat_request ''b'' [\<lparr>role = User, content = ''a''\<rparr>])
   \<and> messages (handleSubmit
        (answering_only (chat_request ''b'' [\<lparr>role = User, content = ''a''\<rparr>])
           (Inr \<lparr>ok = True, body_text = [],
                 json = Inr \<lparr>success = True, answer = ''yes'', error = None\<rparr>\<rparr>)
           (Inl ''no such request''))
        \<lparr>messages = [\<lparr>role = User, content = ''a''\<rparr>], input = '' b'', loading = False,
         error = Some ''Failed to send message''\<rparr>)
     = [\<lparr>role = User, content = ''a''\<rparr>, \<lparr>role = User, content = ''b''\<rparr>,
        \<lparr>role = Assistant, content = ''yes''\<rparr>]
   \<and> sent (ChatInterface_exec
        [SetInput ''a'', Submit, Settled (Inl (TypeError ''Failed to fetch'')), SetInput '' b'', Submit])
     = [chat_request ''a'' [], chat_request ''b'' [\<lparr>role = User, content = ''a''\<rparr>]]"
proof -
  let ?s = "\<lparr>messages = [\<lparr>role = User, content = ''a''\<rparr>], input = '' b'', loading = False,
        error = Some ''Failed to send message''\<rparr>"
  have a: "body (chat_request ''b'' [\<lparr>role = User, content = ''a''\<rparr>])
     = JsonBody \<lparr>question = ''b'', history = [\<lparr>role = User, content = ''a''\<rparr>]\<rparr>"
    by (rule chat_request_history [THEN conjunct1])
  have b: "handleSubmit_sends ?s = Some (chat_request ''b'' [\<lparr>role = User, content = ''a''\<rparr>])"
    by (simp add: handleSubmit_sends_def trim_def is_ws_def)
  have t: "trim '' b'' = ''b''" by (simp add: trim_def is_ws_def)
  have h: "trim (input ?s) \<noteq> [] \<and> \<not> ChatInterface_state.loading ?s" by (simp add: t)
  from chat_request_history [where s = ?s and a = "''yes''" and m = "''no such request''",
      THEN conjunct2, THEN conjunct2, THEN conjunct2, THEN conjunct2, THEN mp, OF h,
      THEN conjunct1]
  have c: "messages (handleSubmit
        (answering_only (chat_request ''b'' [\<lparr>role = User, content = ''a''\<rparr>])
           (Inr \<lparr>ok = True, body_text = [],
                 json = Inr \<lparr>success = True, answer = ''yes'', error = None\<rparr>\<rparr>)
           (Inl ''no such request'')) ?s)
     = [\<lparr>role = User, content = ''a''\<rparr>, \<lparr>role = User, content = ''b''\<rparr>,
        \<lparr>role = Assistant, content = ''yes''\<rparr>]"
    by (simp add: t)
  have d: "sent (ChatInterface_exec
        [SetInput ''a'', Submit, Settled (Inl (TypeError ''Failed to fetch'')), SetInput '' b'', Submit])
     = [chat_request ''a'' [], chat_request ''b'' [\<lparr>role = User, content = ''a''\<rparr>]]"
    by (simp add: ChatInterface_exec_def ChatInterface_start_def ChatInterface_initial_def
      handleSubmit_sends_def handleSubmit_begin_def handleSubmit_settle_def trim_def is_ws_def)
  from a b c d show ?thesis by (intro conjI)
qed

text \<open>
  Claim C5 as first stated says that the history is the sequence of completed turns and does
  not contain the question being asked. After a request that failed, the user's message of that
  request stays in the list without an answer, and the next request carries it as history; when
  the user types the same question again, the history holds the question being asked.
\<close>

theorem chat_request_history_counterexample:
  "sent (ChatInterface_exec
      [SetInput ''a'', Submit, Settled (Inl (TypeError ''Failed to fetch'')), SetInput ''a'', Submit])
     = [chat_request ''a'' [], chat_request ''a'' [\<lparr>role = User, content = ''a''\<rparr>]]
   \<and> body (chat_request ''a'' [\<lparr>role = User, content = ''a''\<rparr>])
     = JsonBody \<lparr>question = ''a'', history = [\<lparr>role = User, content = ''a''\<rparr>]\<rparr>
   \<and> messages (handleSubmit
        (answering_only (chat_request ''a'' [\<lparr>role = User, content = ''a''\<rparr>])
           (Inr \<lparr>ok = True, body_text = [],
                 json = Inr \<lparr>success = True, answer = ''yes'', error = None\<rparr>\<rparr>)
           (Inl ''no such request''))
        ((handleSubmit (answering (Inl ''Failed to fetch'')) (ChatInterface_initial\<lparr>input := ''a''\<rparr>))
           \<lparr>input := ''a''\<rparr>))
     = [\<lparr>role = User, content = ''a''\<rparr>, \<lparr>role = User, content = ''a''\<rparr>,
        \<lparr>role = Assistant, content = ''yes''\<rparr>]"
  by (simp add: ChatInterface_exec_def ChatInterface_start_def ChatInterface_initial_def
      handleSubmit_sends_def handleSubmit_begin_def handleSubmit_settle_def handleSubmit_def
      chat_def chat_request_def answering_def answering_only_def await_fetch_def await_json_def
      trim_def is_ws_def API_BASE_def Let_def)

text \<open>
  Claim C9. On every run of the ChatInterface at most one request is pending, and one is
  pending exactly while \<open>loading\<close> holds. While \<open>loading\<close> holds the submit handler
  sends nothing and changes nothing, and the text input and the Send button are disabled. When
  the input is empty or consists of white space only, nothing is sent. A submission that sends
  sets \<open>loading\<close>; settling resets it; and no other event resets it.
\<close>

theorem ChatInterface_single_request:
  fixes s :: ChatInterface_state
  shows "length (in_flight (ChatInterface_exec evs)) \<le> 1
   \<and> ChatInterface_state.loading (ui (ChatInterface_exec evs)) = (in_flight (ChatInterface_exec evs) \<noteq> [])
   \<and> (ChatInterface_state.loading s \<longrightarrow>
        handleSubmit_sends s = None \<and> handleSubmit_begin s = s \<and> input_disabled s \<and> send_disabled s)
   \<and> ((\<forall>c\<in>set (input s). is_ws c) \<longrightarrow>
        handleSubmit_sends s = None \<and> handleSubmit_begin s = s \<and> send_disabled s)
   \<and> (handleSubmit_sends s \<noteq> None \<longrightarrow> ChatInterface_state.loading (handleSubmit_begin s))
   \<and> \<not> ChatInterface_state.loading (handleSubmit_settle r s)
   \<and> (ChatInterface_state.loading (ui c) \<and> \<not> ChatInterface_state.loading (ui (ChatInterface_step e c))
        \<longrightarrow> (\<exists>r'. e = Settled r') \<and> in_flight c \<noteq> [])"
proof -
  have inv: "one_pending (ChatInterface_exec evs)" by (rule one_pending_exec)
  have a: "length (in_flight (ChatInterface_exec evs)) \<le> 1"
    using inv by (simp add: one_pending_def)
  have b: "ChatInterface_state.loading (ui (ChatInterface_exec evs)) = (in_flight (ChatInterface_exec evs) \<noteq> [])"
    using inv by (simp add: one_pending_def)
  have c: "ChatInterface_state.loading s \<longrightarrow>
        handleSubmit_sends s = None \<and> handleSubmit_begin s = s \<and> input_disabled s \<and> send_disabled s"
    by (simp add: handleSubmit_sends_def handleSubmit_begin_def input_disabled_def send_disabled_def)
  have d: "(\<forall>c\<in>set (input s). is_ws c) \<longrightarrow>
        handleSubmit_sends s = None \<and> handleSubmit_begin s = s \<and> send_disabled s"
    by (simp add: handleSubmit_sends_def handleSubmit_begin_def send_disabled_def trim_empty_iff)
  have e: "handleSubmit_sends s \<noteq> None \<longrightarrow> ChatInterface_state.loading (handleSubmit_begin s)"
    by (simp add: handleSubmit_sends_def handleSubmit_begin_def Let_def)
  have f: "\<not> ChatInterface_state.loading (handleSubmit_settle r s)"
    by (simp add: handleSubmit_settle_def split: sum.splits)
  have g: "ChatInterface_state.loading (ui c) \<and> \<not> ChatInterface_state.loading (ui (ChatInterface_step e c))
        \<longrightarrow> (\<exists>r'. e = Settled r') \<and> in_flight c \<noteq> []"
    by (cases e) (auto simp: handleSubmit_sends_def handleSubmit_begin_def Let_def split: option.splits list.splits)
  from a b c d e f g show ?thesis by blast
qed

theorem ChatInterface_single_request_witness:
  "length (in_flight (ChatInterface_exec [SetInput ''hi'', Submit, Submit])) \<le> 1
   \<and> sent (ChatInterface_exec [SetInput ''hi'', Submit, Submit]) = [chat_request ''hi'' []]
   \<and> handleSubmit_sends (ChatInterface_initial\<lparr>input := ''  ''\<rparr>) = None"
proof -
  have a: "length (in_flight (ChatInterface_exec [SetInput ''hi'', Submit, Submit])) \<le> 1"
    by (rule ChatInterface_single_request [THEN conjunct1])
  have b: "sent (ChatInterface_exec [SetInput ''hi'', Submit, Submit]) = [chat_request ''hi'' []]"
    by (simp add: ChatInterface_exec_def ChatInterface_start_def ChatInterface_initial_def
      handleSubmit_sends_def handleSubmit_begin_def trim_def is_ws_def)
  have c: "handleSubmit_sends (ChatInterface_initial\<lparr>input := ''  ''\<rparr>) = None"
    by (simp add: ChatInterface_initial_def handleSubmit_sends_def trim_def is_ws_def)
  from a b c show ?thesis by (intro conjI)
qed

subsection \<open>API client\<close>

text \<open>
  Claim C10, amended. \<open>uploadResume\<close> and \<open>uploadJD\<close> throw an \<open>Error\<close> carrying the
  text of the response body exactly when the response is not OK, and return the decoded body
  of an OK response whose body is JSON. \<open>getAnalysis\<close> and \<open>chat\<close> make no check of the
  status: they never throw such an error, they return the decoded body of every response whose
  body is JSON, OK or not, and their outcome does not depend on the \<open>ok\<close> flag at all.
  When the body is not JSON they pass on the SyntaxError raised by \<open>res.json()\<close>.
\<close>

theorem api_error_surfaces:
  "(uploadResume fetch f = Inl (Error t) \<longleftrightarrow>
      (\<exists>res. fetch (uploadResume_request f) = Inr res \<and> \<not> ok res \<and> t = body_text res))
   \<and> (uploadJD fetch f = Inl (Error t) \<longleftrightarrow>
      (\<exists>res. fetch (uploadJD_request f) = Inr res \<and> \<not> ok res \<and> t = body_text res))
   \<and> (\<forall>res v. fetch (uploadResume_request f) = Inr res \<and> ok res \<and> json res = Inr v
        \<longrightarrow> uploadResume fetch f = Inr v)
   \<and> (\<forall>res v. fetch (uploadJD_request f) = Inr res \<and> ok res \<and> json res = Inr v
        \<longrightarrow> uploadJD fetch f = Inr v)
   \<and> getAnalysis afetch \<noteq> Inl (Error t)
   \<and> chat cfetch q h \<noteq> Inl (Error t)
   \<and> (\<forall>res v. afetch getAnalysis_request = Inr res \<and> json res = Inr v
        \<longrightarrow> getAnalysis afetch = Inr v)
   \<and> (\<forall>res v. cfetch (chat_request q h) = Inr res \<and> json res = Inr v
        \<longrightarrow> chat cfetch q h = Inr v)
   \<and> getAnalysis (\<lambda>req. map_sum id (\<lambda>res. res\<lparr>ok := b\<rparr>) (afetch req)) = getAnalysis afetch
   \<and> chat (\<lambda>req. map_sum id (\<lambda>res. res\<lparr>ok := b\<rparr>) (cfetch req)) q h = chat cfetch q h
   \<and> (\<forall>res m. afetch getAnalysis_request = Inr res \<and> json res = Inl m
        \<longrightarrow> getAnalysis afetch = Inl (SyntaxError m))
   \<and> (\<forall>res m. cfetch (chat_request q h) = Inr res \<and> json res = Inl m
        \<longrightarrow> chat cfetch q h = Inl (SyntaxError m))"
proof -
  have a: "uploadResume fetch f = Inl (Error t) \<longleftrightarrow>
      (\<exists>res. fetch (uploadResume_request f) = Inr res \<and> \<not> ok res \<and> t = body_text res)"
    by (auto simp: uploadResume_def await_fetch_def await_json_def split: sum.splits)
  have b: "uploadJD fetch f = Inl (Error t) \<longleftrightarrow>
      (\<exists>res. fetch (uploadJD_request f) = Inr res \<and> \<not> ok res \<and> t = body_text res)"
    by (auto simp: uploadJD_def await_fetch_def await_json_def split: sum.splits)
  have c: "\<forall>res v. fetch (uploadResume_request f) = Inr res \<and> ok res \<and> json res = Inr v
        \<longrightarrow> uploadResume fetch f = Inr v"
    by (simp add: uploadResume_def await_fetch_def await_json_def)
  have d: "\<forall>res v. fetch (uploadJD_request f) = Inr res \<and> ok res \<and> json res = Inr v
        \<longrightarrow> uploadJD fetch f = Inr v"
    by (simp add: uploadJD_def await_fetch_def await_json_def)
  have e: "getAnalysis afetch \<noteq> Inl (Error t)"
    by (simp add: getAnalysis_def await_fetch_def await_json_def split: sum.splits)
  have g: "chat cfetch q h \<noteq> Inl (Error t)"
    by (simp add: chat_def await_fetch_def await_json_def split: sum.splits)
  have i: "\<forall>res v. afetch getAnalysis_request = Inr res \<and> json res = Inr v
        \<longrightarrow> getAnalysis afetch = Inr v"
    by (simp add: getAnalysis_def await_fetch_def await_json_def)
  have j: "\<forall>res v. cfetch (chat_request q h) = Inr res \<and> json res = Inr v
        \<longrightarrow> chat cfetch q h = Inr v"
    by (simp add: chat_def await_fetch_def await_json_def)
  have k: "getAnalysis (\<lambda>req. map_sum id (\<lambda>res. res\<lparr>ok := b\<rparr>) (afetch req)) = getAnalysis afetch"
    by (cases "afetch getAnalysis_request") (simp_all add: getAnalysis_def await_fetch_def await_json_def)
  have l: "chat (\<lambda>req. map_sum id (\<lambda>res. res\<lparr>ok := b\<rparr>) (cfetch req)) q h = chat cfetch q h"
    by (cases "cfetch (chat_request q h)") (simp_all add: chat_def await_fetch_def await_json_def)
  have m: "\<forall>res m. afetch getAnalysis_request = Inr res \<and> json res = Inl m
        \<longrightarrow> getAnalysis afetch = Inl (SyntaxError m)"
    by (simp add: getAnalysis_def await_fetch_def await_json_def)
  have n: "\<forall>res m. cfetch (chat_request q h) = Inr res \<and> json res = Inl m
        \<longrightarrow> chat cfetch q h = Inl (SyntaxError m)"
    by (simp add: chat_def await_fetch_def await_json_def)
  show ?thesis by (intro conjI a b c d e g i j k l m n)
qed

theorem api_error_surfaces_witness:
  "uploadResume
     (answering (Inr \<lparr>ok = False, body_text = ''Unsupported file'',
        json = Inr \<lparr>UploadResponse.success = False, UploadResponse.message = [],
                    UploadResponse.filename = None, UploadResponse.text_length = None\<rparr>\<rparr>))
     \<lparr>name = ''cv.doc'', bytes = []\<rparr>
   = Inl (Error ''Unsupported file'')
   \<and> getAnalysis
     (answering (Inr \<lparr>ok = False, body_text = [],
        json = Inr \<lparr>AnalysisResponse.success = False, AnalysisResponse.analysis = None,
                    AnalysisResponse.error = Some ''Upload both documents''\<rparr>\<rparr>))
   = Inr \<lparr>AnalysisResponse.success = False, AnalysisResponse.analysis = None,
          AnalysisResponse.error = Some ''Upload both documents''\<rparr>"
proof -
  let ?ures = "\<lparr>ok = False, body_text = ''Unsupported file'',
        json = Inr \<lparr>UploadResponse.success = False, UploadResponse.message = [],
                    UploadResponse.filename = None, UploadResponse.text_length = None\<rparr>\<rparr>"
  let ?abody = "\<lparr>AnalysisResponse.success = False, AnalysisResponse.analysis = None,
          AnalysisResponse.error = Some ''Upload both documents''\<rparr>"
  let ?ares = "\<lparr>ok = False, body_text = [], json = Inr ?abody\<rparr>"
  let ?cv = "\<lparr>name = ''cv.doc'', bytes = []\<rparr>"
  note t = api_error_surfaces [where fetch = "answering (Inr ?ures)" and f = ?cv
      and t = "''Unsupported file''" and afetch = "answering (Inr ?ares)"]
  have "\<exists>res. answering (Inr ?ures) (uploadResume_request ?cv) = Inr res
      \<and> \<not> ok res \<and> ''Unsupported file'' = body_text res"
    by (simp add: answering_def)
  with t [THEN conjunct1]
  have a: "uploadResume (answering (Inr ?ures)) ?cv = Inl (Error ''Unsupported file'')"
    by (rule iffD2)
  have h: "answering (Inr ?ares) getAnalysis_request = Inr ?ares \<and> json ?ares = Inr ?abody"
    by (simp add: answering_def)
  from t [THEN conjunct2, THEN conjunct2, THEN conjunct2, THEN conjunct2, THEN conjunct2,
      THEN conjunct2, THEN conjunct1, THEN spec, THEN spec, THEN mp, OF h]
  have b: "getAnalysis (answering (Inr ?ares)) = Inr ?abody" .
  from a b show ?thesis by (intro conjI)
qed

text \<open>
  Claim C10 as first stated says that \<open>getAnalysis\<close> and \<open>chat\<close> never throw on a status
  that is not OK. They do when the body of such a response is not JSON: \<open>res.json()\<close> raises
  a SyntaxError, which both functions pass on.
\<close>

theorem api_error_surfaces_counterexample:
  "chat (answering (Inr \<lparr>ok = False, body_text = ''Internal Server Error'',
                      json = Inl ''Unexpected token I in JSON at position 0''\<rparr>)) ''hi'' []
     = Inl (SyntaxError ''Unexpected token I in JSON at position 0'')
   \<and> getAnalysis (answering (Inr \<lparr>ok = False, body_text = ''Internal Server Error'',
                      json = Inl ''Unexpected token I in JSON at position 0''\<rparr>))
     = Inl (SyntaxError ''Unexpected token I in JSON at position 0'')"
  by (simp add: chat_def getAnalysis_def await_fetch_def await_json_def answering_def)

subsection \<open>Context assembler\<close>

text \<open>
  Claim C3. The history placed in the prompt payload has at most 6 messages: it is the last 6
  messages of the conversation history (all of them when there are fewer), in their original
  order, so the oldest message of the window comes first.
\<close>

theorem assemble_history_truncated:
  "length (payload_history (assemble chunks q h)) \<le> 6
   \<and> length (payload_history (assemble chunks q h)) = min 6 (length h)
   \<and> payload_history (assemble chunks q h) = drop (length h - 6) h
   \<and> suffix (payload_history (assemble chunks q h)) h
   \<and> (\<exists>older. h = older @ payload_history (assemble chunks q h))"
proof -
  have eq: "payload_history (assemble chunks q h) = drop (length h - 6) h"
    by (simp add: assemble_def truncate_history_def HISTORY_LIMIT_def rev_take)
  have "h = take (length h - 6) h @ drop (length h - 6) h" by simp
  then have ex: "\<exists>older. h = older @ drop (length h - 6) h" by blast
  then have "suffix (drop (length h - 6) h) h" by (simp add: suffix_def)
  with eq ex show ?thesis by auto
qed

theorem assemble_history_truncated_witness:
  "payload_history (assemble [] ''q''
      [\<lparr>role = User, content = ''1''\<rparr>, \<lparr>role = Assistant, content = ''2''\<rparr>,
       \<lparr>role = User, content = ''3''\<rparr>, \<lparr>role = Assistant, content = ''4''\<rparr>,
       \<lparr>role = User, content = ''5''\<rparr>, \<lparr>role = Assistant, content = ''6''\<rparr>,
       \<lparr>role = User, content = ''7''\<rparr>, \<lparr>role = Assistant, content = ''8''\<rparr>])
   = [\<lparr>role = User, content = ''3''\<rparr>, \<lparr>role = Assistant, content = ''4''\<rparr>,
      \<lparr>role = User, content = ''5''\<rparr>, \<lparr>role = Assistant, content = ''6''\<rparr>,
      \<lparr>role = User, content = ''7''\<rparr>, \<lparr>role = Assistant, content = ''8''\<rparr>]"
  using assemble_history_truncated [of "[]" "''q''"
      "[\<lparr>role = User, content = ''1''\<rparr>, \<lparr>role = Assistant, content = ''2''\<rparr>,
       \<lparr>role = User, content = ''3''\<rparr>, \<lparr>role = Assistant, content = ''4''\<rparr>,
       \<lparr>role = User, content = ''5''\<rparr>, \<lparr>role = Assistant, content = ''6''\<rparr>,
       \<lparr>role = User, content = ''7''\<rparr>, \<lparr>role = Assistant, content = ''8''\<rparr>]"]
  by simp


subsection \<open>FileUpload\<close>

lemma handleUpload_try_not_ok:
  assumes "\<not> ok res"
  shows "handleUpload_try eng (Inr res) =
     (case get_prop (response_data res) ''detail'' of
        None \<Rightarrow> Inl (TypeError (null_read_message eng))
      | Some detail \<Rightarrow> Inl (Error_of eng (js_or (detail_err detail) (JString ''Upload failed''))))"
  using assms
  by (simp add: handleUpload_try_def await_fetch_def read_prop_def Let_def split: option.splits)

lemma Error_of_message:
  "message_or (Error_of eng v) d = (case v of JString m \<Rightarrow> m | _ \<Rightarrow> ToString eng v)"
  by (cases v) simp_all

lemma reported_message:
  "message_or (Error_of eng (js_or (detail_err detail) (JString ''Upload failed''))) d =
     (case detail of
        JString d \<Rightarrow> if d = [] then ''Upload failed'' else d
      | JArray xs \<Rightarrow>
          (case opt_chain (first_item xs) ''msg'' of
             JString m \<Rightarrow> if m = [] then ''Upload failed'' else m
           | v \<Rightarrow> if truthy v then ToString eng v else ''Upload failed'')
      | _ \<Rightarrow> ''Upload failed'')"
proof (cases detail)
  case (JArray xs)
  show ?thesis
    by (cases "opt_chain (first_item xs) ''msg''")
       (simp_all add: JArray detail_err_def js_or_def)
qed (simp_all add: detail_err_def js_or_def)

lemma handleUpload_try_Inr:
  assumes "handleUpload_try eng fetched = Inr (msg, info)"
  shows "\<exists>res. fetched = Inr res \<and> ok res
     \<and> get_prop (response_data res) ''filename'' = Some (upload_info.filename info)
     \<and> get_prop (response_data res) ''text_length'' = Some (upload_info.text_length info)
     \<and> get_prop (response_data res) ''message'' = Some (upload_info.message info)
     \<and> msg = js_or (upload_info.message info) (JString ''Uploaded'')"
  using assms
  by (auto simp: handleUpload_try_def await_fetch_def read_prop_def Let_def
      split: sum.splits option.splits if_splits)

text \<open>
  Claim C8, amended. When the response of an upload is not OK, the FileUpload component sets
  its status to error and does not call \<open>onSuccess\<close>, whatever the body is. When the body is
  not the JSON value \<open>null\<close>, so that its \<open>detail\<close> can be read, the message reported is
  derived from \<open>detail\<close>: the string itself when \<open>detail\<close> is a non-empty string, the
  \<open>msg\<close> of the first item when \<open>detail\<close> is an array, and \<open>Upload failed\<close> in every
  other case. \<open>onSuccess\<close> is called only for an OK response, with the \<open>filename\<close>,
  \<open>text_length\<close> and \<open>message\<close> of the response body, and then the status is success.
\<close>

theorem handleUpload_reports:
  fixes res :: "jsval Response" and s :: FileUpload_state
  shows "(\<not> ok res \<longrightarrow>
            status (handleUpload_settle eng (Inr res) s) = StatusError
          \<and> handleUpload_onSuccess eng (Inr res) = None)
   \<and> (\<not> ok res \<and> get_prop (response_data res) ''detail'' = Some detail \<longrightarrow>
         FileUpload_state.message (handleUpload_settle eng (Inr res) s) =
           JString (case detail of
                      JString d \<Rightarrow> if d = [] then ''Upload failed'' else d
                    | JArray xs \<Rightarrow>
                        (case opt_chain (first_item xs) ''msg'' of
                           JString m \<Rightarrow> if m = [] then ''Upload failed'' else m
                         | v \<Rightarrow> if truthy v then ToString eng v else ''Upload failed'')
                    | _ \<Rightarrow> ''Upload failed''))
   \<and> (handleUpload_onSuccess eng fetched = Some info \<longrightarrow>
         (\<exists>res'. fetched = Inr res' \<and> ok res'
            \<and> get_prop (response_data res') ''filename'' = Some (upload_info.filename info)
            \<and> get_prop (response_data res') ''text_length'' = Some (upload_info.text_length info)
            \<and> get_prop (response_data res') ''message'' = Some (upload_info.message info))
         \<and> status (handleUpload_settle eng fetched s) = StatusSuccess)
   \<and> (snd (handleUpload eng endpoint fetch s) = Some info \<longrightarrow>
         (\<exists>f res'. file_picked s = Some f \<and> fetch (handleUpload_request endpoint f) = Inr res' \<and> ok res'))"
proof -
  have a: "\<not> ok res \<longrightarrow>
            status (handleUpload_settle eng (Inr res) s) = StatusError
          \<and> handleUpload_onSuccess eng (Inr res) = None"
    by (simp add: handleUpload_settle_def handleUpload_onSuccess_def handleUpload_try_not_ok
        split: option.splits)
  have b: "\<not> ok res \<and> get_prop (response_data res) ''detail'' = Some detail \<longrightarrow>
         FileUpload_state.message (handleUpload_settle eng (Inr res) s) =
           JString (case detail of
                      JString d \<Rightarrow> if d = [] then ''Upload failed'' else d
                    | JArray xs \<Rightarrow>
                        (case opt_chain (first_item xs) ''msg'' of
                           JString m \<Rightarrow> if m = [] then ''Upload failed'' else m
                         | v \<Rightarrow> if truthy v then ToString eng v else ''Upload failed'')
                    | _ \<Rightarrow> ''Upload failed'')"
    by (simp add: handleUpload_settle_def handleUpload_try_not_ok reported_message)
  have c: "handleUpload_onSuccess eng fetched = Some info \<longrightarrow>
         (\<exists>res'. fetched = Inr res' \<and> ok res'
            \<and> get_prop (response_data res') ''filename'' = Some (upload_info.filename info)
            \<and> get_prop (response_data res') ''text_length'' = Some (upload_info.text_length info)
            \<and> get_prop (response_data res') ''message'' = Some (upload_info.message info))
         \<and> status (handleUpload_settle eng fetched s) = StatusSuccess"
  proof
    assume h: "handleUpload_onSuccess eng fetched = Some info"
    then obtain msg where t: "handleUpload_try eng fetched = Inr (msg, info)"
      by (auto simp: handleUpload_onSuccess_def split: sum.splits)
    from handleUpload_try_Inr [OF t] t
    show "(\<exists>res'. fetched = Inr res' \<and> ok res'
            \<and> get_prop (response_data res') ''filename'' = Some (upload_info.filename info)
            \<and> get_prop (response_data res') ''text_length'' = Some (upload_info.text_length info)
            \<and> get_prop (response_data res') ''message'' = Some (upload_info.message info))
         \<and> status (handleUpload_settle eng fetched s) = StatusSuccess"
      by (auto simp: handleUpload_settle_def)
  qed
  have d: "snd (handleUpload eng endpoint fetch s) = Some info \<longrightarrow>
         (\<exists>f res'. file_picked s = Some f \<and> fetch (handleUpload_request endpoint f) = Inr res' \<and> ok res')"
  proof
    assume h: "snd (handleUpload eng endpoint fetch s) = Some info"
    then obtain f where f: "file_picked s = Some f"
      by (cases "file_picked s") (auto simp: handleUpload_def)
    with h have "handleUpload_onSuccess eng (fetch (handleUpload_request endpoint f)) = Some info"
      by (simp add: handleUpload_def)
    then obtain msg where t: "handleUpload_try eng (fetch (handleUpload_request endpoint f)) = Inr (msg, info)"
      by (auto simp: handleUpload_onSuccess_def split: sum.splits)
    from handleUpload_try_Inr [OF t] f
    show "\<exists>f res'. file_picked s = Some f \<and> fetch (handleUpload_request endpoint f) = Inr res' \<and> ok res'"
      by blast
  qed
  show ?thesis by (intro conjI a b c d)
qed

theorem handleUpload_reports_witness:
  "status (handleUpload_settle example_engine
      (Inr \<lparr>ok = False, body_text = [],
            json = Inr (JObject [(''detail'', JString ''Unsupported file type'')])\<rparr>)
      FileUpload_initial) = StatusError
   \<and> FileUpload_state.message (handleUpload_settle example_engine
      (Inr \<lparr>ok = False, body_text = [],
            json = Inr (JObject [(''detail'', JString ''Unsupported file type'')])\<rparr>)
      FileUpload_initial) = JString ''Unsupported file type''
   \<and> handleUpload_onSuccess example_engine
      (Inr \<lparr>ok = False, body_text = [],
            json = Inr (JObject [(''detail'', JString ''Unsupported file type'')])\<rparr>) = None"
proof -
  let ?eng = "example_engine"
  let ?res = "\<lparr>ok = False, body_text = [],
            json = Inr (JObject [(''detail'', JString ''Unsupported file type'')])\<rparr>"
  note t = handleUpload_reports [where eng = ?eng and res = ?res and s = FileUpload_initial
      and detail = "JString ''Unsupported file type''"]
  have n: "\<not> ok ?res" by simp
  have g: "\<not> ok ?res \<and> get_prop (response_data ?res) ''detail'' = Some (JString ''Unsupported file type'')"
    by (simp add: response_data_def await_json_def)
  from t [THEN conjunct1, THEN mp, OF n]
  have a: "status (handleUpload_settle ?eng (Inr ?res) FileUpload_initial) = StatusError
     \<and> handleUpload_onSuccess ?eng (Inr ?res) = None" .
  from t [THEN conjunct2, THEN conjunct1, THEN mp, OF g]
  have b: "FileUpload_state.message (handleUpload_settle ?eng (Inr ?res) FileUpload_initial)
     = JString ''Unsupported file type''" by simp
  from a b show ?thesis by blast
qed

text \<open>
  Claim C8 as first stated does not hold for a response that is not OK and whose body is the
  JSON value \<open>null\<close>: reading \<open>detail\<close> raises a TypeError, and the message shown is that
  of the TypeError, neither derived from \<open>detail\<close> nor \<open>Upload failed\<close>.
\<close>

theorem handleUpload_reports_counterexample:
  "FileUpload_state.message
     (handleUpload_settle example_engine
        (Inr \<lparr>ok = False, body_text = ''null'', json = Inr JNull\<rparr>) FileUpload_initial)
   = JString ''data is null''"
  by (simp add: handleUpload_settle_def handleUpload_try_def await_fetch_def await_json_def
      response_data_def read_prop_def example_engine_def)

subsection \<open>App: runs\<close>

lemma App_exec_Nil: "App_exec eng [] = App_start"
  by (simp add: App_exec_def)

lemma App_exec_snoc: "App_exec eng (evs @ [e]) = App_step eng e (App_exec eng evs)"
  by (simp add: App_exec_def)

lemma loadAnalysis_settle_frame:
  "resumeUploaded (loadAnalysis_settle fetched s) = resumeUploaded s
   \<and> jdUploaded (loadAnalysis_settle fetched s) = jdUploaded s"
  by (simp add: loadAnalysis_settle_def split: sum.splits prod.splits bool.splits option.splits)

lemma resumeUploaded_step:
  "resumeUploaded (app (App_step eng e r)) = (resumeUploaded (app r) \<or> resume_upload_succeeded eng e)"
proof (cases e)
  case (ResumeUploadSettled fetched)
  then show ?thesis
    by (simp add: resume_upload_succeeded_def handleResumeUpload_def split: option.splits)
next
  case (JDUploadSettled fetched)
  then show ?thesis
    by (simp add: resume_upload_succeeded_def handleJDUpload_def split: option.splits)
next
  case ClickRunAnalysis
  then show ?thesis
    by (simp add: resume_upload_succeeded_def loadAnalysis_begin_def
        split: analysis_section.splits bool.splits)
next
  case (AnalysisSettled fetched)
  then show ?thesis
    by (simp add: resume_upload_succeeded_def loadAnalysis_settle_frame split: nat.splits)
next
  case (HealthChecked fetched)
  then show ?thesis by (simp add: resume_upload_succeeded_def)
next
  case (ChatEvent ce)
  then show ?thesis by (simp add: resume_upload_succeeded_def split: chat_section.splits)
qed

lemma jdUploaded_step:
  "jdUploaded (app (App_step eng e r)) = (jdUploaded (app r) \<or> jd_upload_succeeded eng e)"
proof (cases e)
  case (ResumeUploadSettled fetched)
  then show ?thesis
    by (simp add: jd_upload_succeeded_def handleResumeUpload_def split: option.splits)
next
  case (JDUploadSettled fetched)
  then show ?thesis
    by (simp add: jd_upload_succeeded_def handleJDUpload_def split: option.splits)
next
  case ClickRunAnalysis
  then show ?thesis
    by (simp add: jd_upload_succeeded_def loadAnalysis_begin_def
        split: analysis_section.splits bool.splits)
next
  case (AnalysisSettled fetched)
  then show ?thesis
    by (simp add: jd_upload_succeeded_def loadAnalysis_settle_frame split: nat.splits)
next
  case (HealthChecked fetched)
  then show ?thesis by (simp add: jd_upload_succeeded_def)
next
  case (ChatEvent ce)
  then show ?thesis by (simp add: jd_upload_succeeded_def split: chat_section.splits)
qed

lemma resumeUploaded_exec:
  "resumeUploaded (app (App_exec eng evs)) = (\<exists>e\<in>set evs. resume_upload_succeeded eng e)"
proof (induction evs rule: rev_induct)
  case Nil
  show ?case by (simp add: App_exec_Nil App_start_def App_initial_def)
next
  case (snoc e evs)
  then show ?case by (auto simp: App_exec_snoc resumeUploaded_step)
qed

lemma jdUploaded_exec:
  "jdUploaded (app (App_exec eng evs)) = (\<exists>e\<in>set evs. jd_upload_succeeded eng e)"
proof (induction evs rule: rev_induct)
  case Nil
  show ?case by (simp add: App_exec_Nil App_start_def App_initial_def)
next
  case (snoc e evs)
  then show ?case by (auto simp: App_exec_snoc jdUploaded_step)
qed

lemma chat_ui_step:
  "\<not> resumeUploaded (app r) \<Longrightarrow> chat_ui (App_step eng e r) = chat_ui r"
  by (cases e)
     (simp_all add: render_chat_section_def split: option.splits analysis_section.splits
        bool.splits nat.splits)

lemma chat_unused_exec:
  "\<not> resumeUploaded (app (App_exec eng evs)) \<Longrightarrow> chat_ui (App_exec eng evs) = ChatInterface_start"
proof (induction evs rule: rev_induct)
  case Nil
  show ?case by (simp add: App_exec_Nil App_start_def)
next
  case (snoc e evs)
  from snoc.prems have n: "\<not> resumeUploaded (app (App_exec eng evs))"
    by (simp add: App_exec_snoc resumeUploaded_step)
  with snoc.IH have "chat_ui (App_exec eng evs) = ChatInterface_start" by simp
  with n show ?case by (simp add: App_exec_snoc chat_ui_step)
qed

lemma analysis_sent_step:
  "analysis_sent (App_step eng e r) \<noteq> analysis_sent r \<Longrightarrow> canAnalyze (app r)"
  by (cases e)
     (auto simp: render_analysis_section_def split: option.splits analysis_section.splits
        bool.splits nat.splits chat_section.splits if_splits)

lemma canAnalyze_step: "canAnalyze (app r) \<Longrightarrow> canAnalyze (app (App_step eng e r))"
  by (simp add: canAnalyze_def resumeUploaded_step jdUploaded_step)

lemma analysis_sent_exec:
  "analysis_sent (App_exec eng evs) \<noteq> [] \<Longrightarrow> canAnalyze (app (App_exec eng evs))"
proof (induction evs rule: rev_induct)
  case Nil
  then show ?case by (simp add: App_exec_Nil App_start_def)
next
  case (snoc e evs)
  show ?case
  proof (cases "analysis_sent (App_exec eng (evs @ [e])) = analysis_sent (App_exec eng evs)")
    case True
    with snoc have "canAnalyze (app (App_exec eng evs))" by simp
    then show ?thesis by (simp add: App_exec_snoc canAnalyze_step)
  next
    case False
    then have "canAnalyze (app (App_exec eng evs))"
      by (simp add: App_exec_snoc analysis_sent_step)
    then show ?thesis by (simp add: App_exec_snoc canAnalyze_step)
  qed
qed

lemma failure_message_nonempty: "failure_message fetched \<noteq> []"
  by (simp add: failure_message_def split: sum.splits option.splits)

lemma loadAnalysis_settle_analysis:
  "App_state.analysis (loadAnalysis_settle fetched s) =
     (case successful_analysis fetched of None \<Rightarrow> App_state.analysis s | Some a \<Rightarrow> Some a)"
  by (simp add: loadAnalysis_settle_def successful_analysis_def await_fetch_def await_json_def
      split: sum.splits option.splits bool.splits)

lemma loadAnalysis_settle_error:
  "analysisError (loadAnalysis_settle fetched s) =
     (case successful_analysis fetched of
        None \<Rightarrow> Some (failure_message fetched)
      | Some a \<Rightarrow> analysisError s)"
  by (simp add: loadAnalysis_settle_def successful_analysis_def failure_message_def str_or_def
      await_fetch_def await_json_def split: sum.splits option.splits bool.splits)

text \<open>
  Claim C4. While \<open>resumeUploaded\<close> is false the chat section renders the hint and not the
  ChatInterface, and no event of the ChatInterface is handled. On every run of the application
  \<open>resumeUploaded\<close> holds exactly when an earlier resume upload has succeeded, and an upload
  succeeds only with an OK response. Hence, on every run, a chat request has been sent only if
  a resume upload succeeded before.
\<close>

theorem chat_needs_resume:
  "(\<not> resumeUploaded s \<longrightarrow> render_chat_section s = ChatHint)
   \<and> (resumeUploaded s \<longrightarrow> render_chat_section s = ChatInterfaceShown)
   \<and> (\<not> resumeUploaded (app r) \<longrightarrow> App_step eng (ChatEvent ce) r = r)
   \<and> resumeUploaded (app (App_exec eng evs)) = (\<exists>e\<in>set evs. resume_upload_succeeded eng e)
   \<and> (sent (chat_ui (App_exec eng evs)) \<noteq> [] \<longrightarrow> (\<exists>e\<in>set evs. resume_upload_succeeded eng e))
   \<and> (resume_upload_succeeded eng e \<longrightarrow> (\<exists>res. e = ResumeUploadSettled (Inr res) \<and> ok res))"
proof -
  have a: "\<not> resumeUploaded s \<longrightarrow> render_chat_section s = ChatHint"
    by (simp add: render_chat_section_def)
  have b: "resumeUploaded s \<longrightarrow> render_chat_section s = ChatInterfaceShown"
    by (simp add: render_chat_section_def)
  have c: "\<not> resumeUploaded (app r) \<longrightarrow> App_step eng (ChatEvent ce) r = r"
    by (simp add: render_chat_section_def)
  have d: "resumeUploaded (app (App_exec eng evs)) = (\<exists>e\<in>set evs. resume_upload_succeeded eng e)"
    by (rule resumeUploaded_exec)
  have e: "sent (chat_ui (App_exec eng evs)) \<noteq> [] \<longrightarrow> (\<exists>e\<in>set evs. resume_upload_succeeded eng e)"
  proof
    assume ne: "sent (chat_ui (App_exec eng evs)) \<noteq> []"
    have "resumeUploaded (app (App_exec eng evs))"
    proof (rule ccontr)
      assume "\<not> resumeUploaded (app (App_exec eng evs))"
      then have "chat_ui (App_exec eng evs) = ChatInterface_start" by (rule chat_unused_exec)
      with ne show False by (simp add: ChatInterface_start_def)
    qed
    then show "\<exists>e\<in>set evs. resume_upload_succeeded eng e" by (simp add: resumeUploaded_exec)
  qed
  have f: "resume_upload_succeeded eng e \<longrightarrow> (\<exists>res. e = ResumeUploadSettled (Inr res) \<and> ok res)"
  proof
    assume h: "resume_upload_succeeded eng e"
    then obtain fetched where ev: "e = ResumeUploadSettled fetched"
      and "handleUpload_onSuccess eng fetched \<noteq> None"
      by (cases e) (auto simp: resume_upload_succeeded_def)
    then obtain msg info where "handleUpload_try eng fetched = Inr (msg, info)"
      by (auto simp: handleUpload_onSuccess_def split: sum.splits)
    from handleUpload_try_Inr [OF this] ev
    show "\<exists>res. e = ResumeUploadSettled (Inr res) \<and> ok res" by blast
  qed
  show ?thesis by (intro conjI a b c d e f)
qed

theorem chat_needs_resume_witness:
  "render_chat_section App_initial = ChatHint
   \<and> sent (chat_ui (App_exec example_engine
        [ChatEvent (SetInput ''hi''), ChatEvent Submit])) = []
   \<and> sent (chat_ui (App_exec example_engine
        [ResumeUploadSettled (Inr \<lparr>ok = True, body_text = [],
            json = Inr (JObject [(''filename'', JString ''cv.pdf'')])\<rparr>),
         ChatEvent (SetInput ''hi''), ChatEvent Submit])) = [chat_request ''hi'' []]"
proof -
  let ?eng = "example_engine"
  have n: "\<not> resumeUploaded App_initial" by (simp add: App_initial_def)
  from chat_needs_resume [where s = App_initial, THEN conjunct1, THEN mp, OF n]
  have a: "render_chat_section App_initial = ChatHint" .
  have b: "sent (chat_ui (App_exec ?eng [ChatEvent (SetInput ''hi''), ChatEvent Submit])) = []"
    by (simp add: App_exec_def App_start_def App_initial_def render_chat_section_def
        ChatInterface_start_def)
  have c: "sent (chat_ui (App_exec ?eng
        [ResumeUploadSettled (Inr \<lparr>ok = True, body_text = [],
            json = Inr (JObject [(''filename'', JString ''cv.pdf'')])\<rparr>),
         ChatEvent (SetInput ''hi''), ChatEvent Submit])) = [chat_request ''hi'' []]"
    by (simp add: App_exec_def App_start_def App_initial_def render_chat_section_def
        ChatInterface_start_def ChatInterface_initial_def handleUpload_onSuccess_def
        handleUpload_try_def await_fetch_def await_json_def response_data_def read_prop_def
        handleResumeUpload_def handleSubmit_sends_def handleSubmit_begin_def trim_def is_ws_def)
  from a b c show ?thesis by (intro conjI)
qed

text \<open>
  Claim C6, amended. On every run, a request for the match analysis has been sent only if a
  resume upload and a JD upload succeeded before; without both, the section renders the hint
  and a click on Run analysis does nothing. A response installs an analysis exactly when it has
  \<open>success\<close> true and carries an analysis object. Otherwise the analysis held is left as it
  was (none is displayed if none was, and one installed earlier stays displayed), and the error
  string (the response's \<open>error\<close> field, or a fixed fallback) is shown.
\<close>

theorem analysis_requested_and_installed:
  "(analysis_sent (App_exec eng evs) \<noteq> [] \<longrightarrow>
      (\<exists>e\<in>set evs. resume_upload_succeeded eng e) \<and> (\<exists>e\<in>set evs. jd_upload_succeeded eng e))
   \<and> (\<not> canAnalyze (app r) \<longrightarrow>
        render_analysis_section (app r) = AnalysisHint \<and> App_step eng ClickRunAnalysis r = r)
   \<and> (successful_analysis fetched = Some a \<longrightarrow>
        App_state.analysis (loadAnalysis_settle fetched s) = Some a
      \<and> App_state.analysis (loadAnalysis fetch' s) =
          (case successful_analysis (fetch' loadAnalysis_request) of
             None \<Rightarrow> App_state.analysis s | Some b \<Rightarrow> Some b))
   \<and> (successful_analysis fetched = None \<longrightarrow>
        App_state.analysis (loadAnalysis_settle fetched s) = App_state.analysis s
      \<and> analysisError (loadAnalysis_settle fetched s) = Some (failure_message fetched)
      \<and> failure_message fetched \<noteq> []
      \<and> (canAnalyze s \<longrightarrow>
            render_analysis_section (loadAnalysis_settle fetched s) =
              AnalysisPanel False (Some (failure_message fetched)) (App_state.analysis s)))
   \<and> (successful_analysis fetched = None \<and> App_state.analysis s = None \<longrightarrow>
        App_state.analysis (loadAnalysis_settle fetched s) = None)"
proof -
  have a: "analysis_sent (App_exec eng evs) \<noteq> [] \<longrightarrow>
      (\<exists>e\<in>set evs. resume_upload_succeeded eng e) \<and> (\<exists>e\<in>set evs. jd_upload_succeeded eng e)"
    using analysis_sent_exec [of eng evs]
    by (simp add: canAnalyze_def resumeUploaded_exec jdUploaded_exec)
  have b: "\<not> canAnalyze (app r) \<longrightarrow>
        render_analysis_section (app r) = AnalysisHint \<and> App_step eng ClickRunAnalysis r = r"
    by (simp add: render_analysis_section_def)
  have c: "successful_analysis fetched = Some a \<longrightarrow>
        App_state.analysis (loadAnalysis_settle fetched s) = Some a
      \<and> App_state.analysis (loadAnalysis fetch' s) =
          (case successful_analysis (fetch' loadAnalysis_request) of
             None \<Rightarrow> App_state.analysis s | Some b \<Rightarrow> Some b)"
    by (simp add: loadAnalysis_settle_analysis loadAnalysis_def loadAnalysis_begin_def
        split: option.splits)
  have l: "App_state.loading (loadAnalysis_settle fetched s) = False"
    by (simp add: loadAnalysis_settle_def split: sum.splits option.splits bool.splits)
  have cA: "canAnalyze (loadAnalysis_settle fetched s) = canAnalyze s"
    by (simp add: canAnalyze_def loadAnalysis_settle_frame)
  have d: "successful_analysis fetched = None \<longrightarrow>
        App_state.analysis (loadAnalysis_settle fetched s) = App_state.analysis s
      \<and> analysisError (loadAnalysis_settle fetched s) = Some (failure_message fetched)
      \<and> failure_message fetched \<noteq> []
      \<and> (canAnalyze s \<longrightarrow>
            render_analysis_section (loadAnalysis_settle fetched s) =
              AnalysisPanel False (Some (failure_message fetched)) (App_state.analysis s))"
    by (simp add: loadAnalysis_settle_analysis loadAnalysis_settle_error failure_message_nonempty
        render_analysis_section_def cA l)
  have e: "successful_analysis fetched = None \<and> App_state.analysis s = None \<longrightarrow>
        App_state.analysis (loadAnalysis_settle fetched s) = None"
    by (simp add: loadAnalysis_settle_analysis)
  show ?thesis by (intro conjI a b c d e)
qed

theorem analysis_requested_and_installed_witness:
  "App_state.analysis
     (loadAnalysis_settle
        (Inr \<lparr>ok = False, body_text = [],
              json = Inr \<lparr>AnalysisResponse.success = False, AnalysisResponse.analysis = None,
                          AnalysisResponse.error = Some ''Upload both documents''\<rparr>\<rparr>)
        (App_initial\<lparr>resumeUploaded := True, jdUploaded := True\<rparr>)) = None
   \<and> analysisError
     (loadAnalysis_settle
        (Inr \<lparr>ok = False, body_text = [],
              json = Inr \<lparr>AnalysisResponse.success = False, AnalysisResponse.analysis = None,
                          AnalysisResponse.error = Some ''Upload both documents''\<rparr>\<rparr>)
        (App_initial\<lparr>resumeUploaded := True, jdUploaded := True\<rparr>)) = Some ''Upload both documents''"
proof -
  let ?f = "Inr \<lparr>ok = False, body_text = [],
              json = Inr \<lparr>AnalysisResponse.success = False, AnalysisResponse.analysis = None,
                          AnalysisResponse.error = Some ''Upload both documents''\<rparr>\<rparr>"
  let ?s = "App_initial\<lparr>resumeUploaded := True, jdUploaded := True\<rparr>"
  have h: "successful_analysis ?f = None" by (simp add: successful_analysis_def)
  have m: "failure_message ?f = ''Upload both documents''" by (simp add: failure_message_def)
  from analysis_requested_and_installed [where fetched = ?f and s = ?s,
      THEN conjunct2, THEN conjunct2, THEN conjunct2, THEN conjunct1, THEN mp, OF h]
  have "App_state.analysis (loadAnalysis_settle ?f ?s) = App_state.analysis ?s
      \<and> analysisError (loadAnalysis_settle ?f ?s) = Some (failure_message ?f)"
    by blast
  then show ?thesis by (simp add: m App_initial_def)
qed

text \<open>
  Claim C6 as first stated says that after a response without success the displayed analysis
  is absent. It is not when an analysis was installed before: after both uploads, a successful
  analysis and then a failing one, the first analysis is still held, next to the error.
\<close>

theorem analysis_requested_and_installed_counterexample:
  "App_state.analysis (app (App_exec
      example_engine
      [ResumeUploadSettled (Inr \<lparr>ok = True, body_text = [], json = Inr (JObject [])\<rparr>),
       JDUploadSettled (Inr \<lparr>ok = True, body_text = [], json = Inr (JObject [])\<rparr>),
       ClickRunAnalysis,
       AnalysisSettled (Inr \<lparr>ok = True, body_text = [],
         json = Inr \<lparr>AnalysisResponse.success = True,
           AnalysisResponse.analysis = Some \<lparr>match_score = Finite 75, strengths = [], gaps = [],
             key_insights = [], skill_overlap = [], missing_skills = []\<rparr>,
           AnalysisResponse.error = None\<rparr>\<rparr>),
       ClickRunAnalysis,
       AnalysisSettled (Inr \<lparr>ok = True, body_text = [],
         json = Inr \<lparr>AnalysisResponse.success = False, AnalysisResponse.analysis = None,
           AnalysisResponse.error = Some ''Upload both documents''\<rparr>\<rparr>)]))
   = Some \<lparr>match_score = Finite 75, strengths = [], gaps = [],
             key_insights = [], skill_overlap = [], missing_skills = []\<rparr>
   \<and> analysisError (app (App_exec
      example_engine
      [ResumeUploadSettled (Inr \<lparr>ok = True, body_text = [], json = Inr (JObject [])\<rparr>),
       JDUploadSettled (Inr \<lparr>ok = True, body_text = [], json = Inr (JObject [])\<rparr>),
       ClickRunAnalysis,
       AnalysisSettled (Inr \<lparr>ok = True, body_text = [],
         json = Inr \<lparr>AnalysisResponse.success = True,
           AnalysisResponse.analysis = Some \<lparr>match_score = Finite 75, strengths = [], gaps = [],
             key_insights = [], skill_overlap = [], missing_skills = []\<rparr>,
           AnalysisResponse.error = None\<rparr>\<rparr>),
       ClickRunAnalysis,
       AnalysisSettled (Inr \<lparr>ok = True, body_text = [],
         json = Inr \<lparr>AnalysisResponse.success = False, AnalysisResponse.analysis = None,
           AnalysisResponse.error = Some ''Upload both documents''\<rparr>\<rparr>)]))
   = Some ''Upload both documents''"
  by (simp add: App_exec_def App_start_def App_initial_def handleUpload_onSuccess_def
      handleUpload_try_def await_fetch_def await_json_def response_data_def read_prop_def
      handleResumeUpload_def handleJDUpload_def render_analysis_section_def canAnalyze_def
      loadAnalysis_begin_def loadAnalysis_settle_def str_or_def)





end
